theory Spec2Isabelle
  imports Complex_Main "HOL-Library.AList" "HOL-Library.Sublist"
begin

section \<open>Python values, errors and objects\<close>

text \<open>
  The exporter's entry point works on Python dictionaries that are shared and updated in
  place, so dictionaries live in a heap and are passed around by reference. A float is
  represented by the rational it denotes (exact for the dyadic values that occur here).
\<close>

type_synonym addr = nat

datatype pyval =
    PNone
  | PBool bool
  | PInt int
  | PFloat rat
  | PStr string
  | PList "pyval list"
  | PRef addr

type_synonym pydict = "(string \<times> pyval) list"

text \<open>The three messages with which an \<open>AttributeError\<close> is raised in this module.\<close>

datatype attr_error =
    NoAttribute string
  | ShapesNotGiven "string list" "string list"
  | CannotInferSequenceLength

text \<open>
  \<open>ShapeError\<close>, \<open>AtolError\<close> and \<open>OutputMatchError\<close> are the three validation error
  classes imported from \<open>error_utils\<close>; none is a subclass of another. \<open>OtherException\<close>
  stands for any other subclass of \<open>Exception\<close> an external collaborator may raise, and
  \<open>NonException\<close> for a \<open>BaseException\<close> outside \<open>Exception\<close> (\<open>KeyboardInterrupt\<close>,
  \<open>SystemExit\<close>), which \<open>except Exception\<close> does not catch.
\<close>

datatype error =
    UnboundLocalError string
  | KeyError string
  | AttributeError attr_error
  | TypeError string
  | ZeroDivisionError
  | ValueError string
  | RuntimeError string
  | ShapeError string
  | AtolError string
  | OutputMatchError string
  | OtherException string
  | NonException string

fun is_Exception :: "error \<Rightarrow> bool" where
  "is_Exception (NonException _) = False"
| "is_Exception _ = True"

record 'fs world =
  heap :: "pydict list"
  disk :: 'fs

type_synonym ('a, 'fs) py = "'fs world \<Rightarrow> (error + 'a) \<times> 'fs world"

definition py_return :: "'a \<Rightarrow> ('a, 'fs) py" where
  "py_return x w = (Inr x, w)"

definition py_raise :: "error \<Rightarrow> ('a, 'fs) py" where
  "py_raise e w = (Inl e, w)"

definition py_bind :: "('a, 'fs) py \<Rightarrow> ('a \<Rightarrow> ('b, 'fs) py) \<Rightarrow> ('b, 'fs) py" where
  "py_bind m f w = (case m w of (Inl e, w') \<Rightarrow> (Inl e, w') | (Inr x, w') \<Rightarrow> f x w')"

definition py_lift :: "error + 'a \<Rightarrow> ('a, 'fs) py" where
  "py_lift r w = (r, w)"

definition py_when :: "bool \<Rightarrow> (unit, 'fs) py \<Rightarrow> (unit, 'fs) py" where
  "py_when c m = (if c then m else py_return ())"

definition heap_lookup :: "pydict list \<Rightarrow> addr \<Rightarrow> pydict option" where
  "heap_lookup h a = (if a < length h then Some (h ! a) else None)"

text \<open>Truth value of a Python object: \<open>None\<close>, zero and empty containers are false.\<close>

fun py_truthy :: "pydict list \<Rightarrow> pyval \<Rightarrow> bool" where
  "py_truthy h PNone = False"
| "py_truthy h (PBool b) = b"
| "py_truthy h (PInt i) = (i \<noteq> 0)"
| "py_truthy h (PFloat r) = (r \<noteq> 0)"
| "py_truthy h (PStr s) = (s \<noteq> [])"
| "py_truthy h (PList xs) = (xs \<noteq> [])"
| "py_truthy h (PRef a) = (case heap_lookup h a of Some d \<Rightarrow> d \<noteq> [] | None \<Rightarrow> True)"

text \<open>\<open>d[k]\<close>: subscripting anything but a dictionary is a \<open>TypeError\<close>, a missing key a \<open>KeyError\<close>.\<close>

definition py_getitem :: "pyval \<Rightarrow> string \<Rightarrow> (pyval, 'fs) py" where
  "py_getitem d k w =
     (case d of
        PRef a \<Rightarrow>
          (case heap_lookup (heap w) a of
             Some kvs \<Rightarrow>
               (case map_of kvs k of
                  Some v \<Rightarrow> (Inr v, w)
                | None \<Rightarrow> (Inl (KeyError k), w))
           | None \<Rightarrow> (Inl (TypeError ''not subscriptable''), w))
      | _ \<Rightarrow> (Inl (TypeError ''not subscriptable''), w))"

text \<open>\<open>d.get(k, default)\<close> on a dictionary object.\<close>

definition py_get :: "pyval \<Rightarrow> string \<Rightarrow> pyval \<Rightarrow> (pyval, 'fs) py" where
  "py_get d k dflt w =
     (case d of
        PRef a \<Rightarrow>
          (case heap_lookup (heap w) a of
             Some kvs \<Rightarrow> (Inr (case map_of kvs k of Some v \<Rightarrow> v | None \<Rightarrow> dflt), w)
           | None \<Rightarrow> (Inl (AttributeError (NoAttribute ''get'')), w))
      | _ \<Rightarrow> (Inl (AttributeError (NoAttribute ''get'')), w))"

text \<open>\<open>d.update({...})\<close>: the entries are written into the object \<open>d\<close> refers to.\<close>

definition py_update :: "pyval \<Rightarrow> pydict \<Rightarrow> (unit, 'fs) py" where
  "py_update d new w =
     (case d of
        PRef a \<Rightarrow>
          (case heap_lookup (heap w) a of
             Some kvs \<Rightarrow> (Inr (), w\<lparr>heap := (heap w)[a := AList.updates (map fst new) (map snd new) kvs]\<rparr>)
           | None \<Rightarrow> (Inl (AttributeError (NoAttribute ''update'')), w))
      | _ \<Rightarrow> (Inl (AttributeError (NoAttribute ''update'')), w))"

text \<open>\<open>d[k] = v\<close>.\<close>

definition py_setitem :: "pyval \<Rightarrow> string \<Rightarrow> pyval \<Rightarrow> (unit, 'fs) py" where
  "py_setitem d k v w =
     (case d of
        PRef a \<Rightarrow>
          (case heap_lookup (heap w) a of
             Some kvs \<Rightarrow> (Inr (), w\<lparr>heap := (heap w)[a := AList.update k v kvs]\<rparr>)
           | None \<Rightarrow> (Inl (TypeError ''does not support item assignment''), w))
      | _ \<Rightarrow> (Inl (TypeError ''does not support item assignment''), w))"

text \<open>A dictionary display \<open>{...}\<close> creates a new object.\<close>

definition py_new_dict :: "pydict \<Rightarrow> (pyval, 'fs) py" where
  "py_new_dict kvs w = (Inr (PRef (length (heap w))), w\<lparr>heap := heap w @ [kvs]\<rparr>)"

text \<open>The numeric tower: \<open>bool\<close> is a subclass of \<open>int\<close>.\<close>

fun as_number :: "pyval \<Rightarrow> (int + rat) option" where
  "as_number (PInt i) = Some (Inl i)"
| "as_number (PBool b) = Some (Inl (if b then 1 else 0))"
| "as_number (PFloat r) = Some (Inr r)"
| "as_number _ = None"

fun to_rat :: "int + rat \<Rightarrow> rat" where
  "to_rat (Inl i) = of_int i"
| "to_rat (Inr r) = r"

text \<open>\<open>a // b\<close>: floor division, an \<open>int\<close> for two ints and a float otherwise.\<close>

definition py_floordiv :: "pyval \<Rightarrow> pyval \<Rightarrow> error + pyval" where
  "py_floordiv a b =
     (case as_number a of
        None \<Rightarrow> Inl (TypeError ''unsupported operand type(s) for //'')
      | Some x \<Rightarrow>
          (case as_number b of
             None \<Rightarrow> Inl (TypeError ''unsupported operand type(s) for //'')
           | Some y \<Rightarrow>
               if to_rat y = 0 then Inl ZeroDivisionError
               else (case (x, y) of
                       (Inl i, Inl j) \<Rightarrow> Inr (PInt (i div j))
                     | _ \<Rightarrow> Inr (PFloat (of_int \<lfloor>to_rat x / to_rat y\<rfloor>)))))"

text \<open>\<open>2 ** e\<close> for an int \<open>e\<close>: an \<open>int\<close> when \<open>e\<close> is not negative, a float otherwise.\<close>

definition py_pow2 :: "int \<Rightarrow> pyval" where
  "py_pow2 e = (if 0 \<le> e then PInt (2 ^ nat e) else PFloat (1 / 2 ^ nat (- e)))"

text \<open>\<open>needle in haystack\<close> on strings.\<close>

fun py_in_str :: "string \<Rightarrow> string \<Rightarrow> bool" where
  "py_in_str needle [] = (needle = [])"
| "py_in_str needle (c # cs) = (prefix needle (c # cs) \<or> py_in_str needle cs)"

text \<open>\<open>str.lower\<close> on ASCII text.\<close>

definition lower_char :: "char \<Rightarrow> char" where
  "lower_char c =
     (let n = (of_char c :: nat) in if 65 \<le> n \<and> n \<le> 90 then char_of (n + 32) else c)"

definition py_lower :: "pyval \<Rightarrow> error + string" where
  "py_lower v = (case v of PStr s \<Rightarrow> Inr (map lower_char s)
                 | _ \<Rightarrow> Inl (AttributeError (NoAttribute ''lower'')))"

text \<open>\<open>s.split(sep)\<close> for a one-character separator: never empty.\<close>

fun split_on :: "char \<Rightarrow> string \<Rightarrow> string list" where
  "split_on sep [] = [[]]"
| "split_on sep (c # cs) =
     (if c = sep then [] # split_on sep cs
      else (case split_on sep cs of
              [] \<Rightarrow> [[c]]
            | seg # segs \<Rightarrow> (c # seg) # segs))"

text \<open>\<open>os.path.join\<close> of two parts on a POSIX system.\<close>

definition os_path_join :: "string \<Rightarrow> string \<Rightarrow> string" where
  "os_path_join a b =
     (if b \<noteq> [] \<and> hd b = CHR ''/'' then b
      else if a = [] \<or> last a = CHR ''/'' then a @ b
      else a @ ''/'' @ b)"

text \<open>\<open>{name: d[name] for name in names}\<close> on a dictionary value.\<close>

fun dict_items_for :: "pydict \<Rightarrow> string list \<Rightarrow> error + pydict" where
  "dict_items_for d [] = Inr []"
| "dict_items_for d (n # ns) =
     (case map_of d n of
        None \<Rightarrow> Inl (KeyError n)
      | Some v \<Rightarrow>
          (case dict_items_for d ns of
             Inl e \<Rightarrow> Inl e
           | Inr rest \<Rightarrow> Inr ((n, v) # AList.delete n rest)))"

section \<open>Adapter parameters\<close>

text \<open>\<open>_normalize_lora_params\<close>: four \<open>isinstance\<close> tests, none of which can raise.\<close>

definition normalize_lora_params ::
  "pyval \<Rightarrow> pyval \<Rightarrow> pyval \<Rightarrow> pyval \<Rightarrow> pyval \<times> pyval \<times> pyval \<times> pyval" where
  "normalize_lora_params lora_model_ids lora_weight_names lora_adapter_names lora_scales =
     (let lora_model_ids =
            (case lora_model_ids of PStr s \<Rightarrow> PList [PStr s] | _ \<Rightarrow> lora_model_ids);
          lora_weight_names =
            (case lora_weight_names of PStr s \<Rightarrow> PList [PStr s] | _ \<Rightarrow> lora_weight_names);
          lora_adapter_names =
            (case lora_adapter_names of PStr s \<Rightarrow> PList [PStr s] | _ \<Rightarrow> lora_adapter_names);
          lora_scales =
            (case lora_scales of PFloat x \<Rightarrow> PList [PFloat x] | _ \<Rightarrow> lora_scales)
      in (lora_model_ids, lora_weight_names, lora_adapter_names, lora_scales))"

section \<open>Shape normalisation\<close>

text \<open>
  \<open>normalize_sentence_transformers_input_shapes\<close>. The argument is the dictionary of the
  parsed arguments (\<open>vars(args)\<close>, or \<open>args\<close> itself when it already is one); it is only read.
  The two sets in the message are kept as lists.
\<close>

definition dict_get :: "pydict \<Rightarrow> string \<Rightarrow> pyval \<Rightarrow> pyval" where
  "dict_get d k dflt = (case map_of d k of Some v \<Rightarrow> v | None \<Rightarrow> dflt)"

definition normalize_sentence_transformers_input_shapes :: "pydict \<Rightarrow> error + pydict" where
  "normalize_sentence_transformers_input_shapes args =
     (case py_lower (dict_get args ''model'' (PStr [])) of
        Inl e \<Rightarrow> Inl e
      | Inr lowered \<Rightarrow>
          (let mandatory_axes =
                 (if py_in_str ''clip'' lowered
                  then [''text_batch_size'', ''image_batch_size'', ''sequence_length'',
                        ''num_channels'', ''width'', ''height'']
                  else [''batch_size'', ''sequence_length''])
           in if \<not> set mandatory_axes \<subseteq> set (map fst args)
              then Inl (AttributeError (ShapesNotGiven mandatory_axes
                          (filter (\<lambda>n. n \<notin> set (map fst args)) mandatory_axes)))
              else dict_items_for args mandatory_axes))"

text \<open>
  \<open>normalize_stable_diffusion_input_shapes\<close>. \<open>build_stable_diffusion_components_mandatory_shapes\<close>
  is defined in another module: its parameter names (\<open>build_args\<close>, what
  \<open>inspect.getfullargspec\<close> reads) and the function itself (\<open>build\<close>) are parameters here.
  \<open>args.pop\<close> changes the caller's dictionary, so the function returns, next to its
  result, the dictionary as the caller finds it afterwards.
\<close>

definition removed_axes :: "string list" where
  "removed_axes =
     [''sequence_length'', ''unet_num_channels'', ''vae_encoder_num_channels'',
      ''vae_decoder_num_channels'', ''num_images_per_prompt'', ''do_classifier_free_guidance'']"

definition normalize_stable_diffusion_input_shapes ::
  "string list \<Rightarrow> (pyval \<Rightarrow> pydict \<Rightarrow> error + 'r) \<Rightarrow> pydict \<Rightarrow> (error + 'r) \<times> pydict" where
  "normalize_stable_diffusion_input_shapes build_args build args =
     (case map_of args ''do_classifier_free_guidance'' of
        None \<Rightarrow> (Inl (KeyError ''do_classifier_free_guidance''), args)
      | Some do_classifier_free_guidance \<Rightarrow>
          (let args = AList.delete ''do_classifier_free_guidance'' args;
               mandatory_axes = filter (\<lambda>n. n \<notin> set removed_axes) (remdups build_args)
           in if \<not> set mandatory_axes \<subseteq> set (map fst args)
              then (Inl (AttributeError (ShapesNotGiven mandatory_axes
                           (filter (\<lambda>n. n \<notin> set (map fst args)) mandatory_axes))), args)
              else (case dict_items_for args mandatory_axes of
                      Inl e \<Rightarrow> (Inl e, args)
                    | Inr mandatory_shapes \<Rightarrow>
                        (build do_classifier_free_guidance
                           (AList.update ''num_images_per_prompt''
                              (dict_get args ''num_images_per_prompt'' (PInt 1)) mandatory_shapes),
                         args))))"

section \<open>Models and pipelines\<close>

text \<open>
  An attribute may be absent from an object, be \<open>None\<close>, or hold a value. Of a tokenizer
  only \<open>model_max_length\<close> is read, of a text encoder only \<open>config.hidden_size\<close>; the
  fields \<open>tokenizer\<close>, \<open>tokenizer_2\<close> and \<open>text_encoder\<close> hold these values.
\<close>

datatype 'a attr = Missing | IsNone | Has 'a

record py_model =
  name_or_path :: "pyval option"
  config_is_pretrained :: bool
  config_is_encoder_decoder :: "pyval option"
  model_type :: string
  tokenizer :: "pyval attr"
  tokenizer_2 :: "pyval attr"
  feature_extractor :: "unit attr"
  text_encoder :: "pyval attr"
  text_encoder_2 :: "unit attr"
  unet_in_channels :: pyval
  vae_in_channels :: pyval
  vae_latent_channels :: pyval
  vae_block_out_channels :: "pyval list"

text \<open>\<open>hasattr(obj, name)\<close> and \<open>getattr(obj, name, None) is not None\<close>.\<close>

fun hasattr :: "'a attr \<Rightarrow> bool" where
  "hasattr Missing = False"
| "hasattr _ = True"

fun is_not_None :: "'a attr \<Rightarrow> bool" where
  "is_not_None (Has _) = True"
| "is_not_None _ = False"

text \<open>\<open>if controlnets:\<close> on an optional list.\<close>

fun list_truthy :: "'c list option \<Rightarrow> bool" where
  "list_truthy None = False"
| "list_truthy (Some cs) = (cs \<noteq> [])"

section \<open>Shape inference for diffusion pipelines\<close>

text \<open>
  \<open>infer_stable_diffusion_shapes_from_diffusers\<close>: \<open>input_shapes\<close> is a reference to the
  caller's dictionary, whose entries refer to one dictionary per component. The function
  writes into these objects and returns the reference it was given.
\<close>

text \<open>
  The \<open>if\<close>/\<open>elif\<close>/\<open>else\<close> over the tokenizers (\<open>model.tokenizer\<close> read directly,
  \<open>tokenizer_2\<close> behind \<open>hasattr\<close>), and the local \<open>vae_scale_factor\<close>,
  \<open>2 ** (len(block_out_channels) - 1) or 8\<close>.
\<close>

definition infer_sequence_length :: "py_model \<Rightarrow> error + pyval" where
  "infer_sequence_length model =
     (case tokenizer model of
        Missing \<Rightarrow> Inl (AttributeError (NoAttribute ''tokenizer''))
      | Has max_length \<Rightarrow> Inr max_length
      | IsNone \<Rightarrow>
          (case tokenizer_2 model of
             Has max_length_2 \<Rightarrow> Inr max_length_2
           | _ \<Rightarrow> Inl (AttributeError CannotInferSequenceLength)))"

definition vae_scale_factor_of :: "py_model \<Rightarrow> pyval" where
  "vae_scale_factor_of model =
     (let power = py_pow2 (int (length (vae_block_out_channels model)) - 1)
      in if py_truthy [] power then power else PInt 8)"

definition infer_stable_diffusion_shapes_from_diffusers ::
  "pyval \<Rightarrow> py_model \<Rightarrow> 'c list option \<Rightarrow> (pyval, 'fs) py" where
  "infer_stable_diffusion_shapes_from_diffusers input_shapes model controlnets =
     py_bind (py_lift (infer_sequence_length model)) (\<lambda>sequence_length.
     let unet_num_channels = unet_in_channels model;
         vae_encoder_num_channels = vae_in_channels model;
         vae_decoder_num_channels = vae_latent_channels model;
         vae_scale_factor = vae_scale_factor_of model
     in
     py_bind (py_getitem input_shapes ''unet'') (\<lambda>unet_h.
     py_bind (py_getitem unet_h ''height'') (\<lambda>height.
     py_bind (py_lift (py_floordiv height vae_scale_factor)) (\<lambda>scaled_height.
     py_bind (py_getitem input_shapes ''unet'') (\<lambda>unet_w.
     py_bind (py_getitem unet_w ''width'') (\<lambda>width.
     py_bind (py_lift (py_floordiv width vae_scale_factor)) (\<lambda>scaled_width.
     py_bind (py_getitem input_shapes ''text_encoder'') (\<lambda>text_enc.
     py_bind (py_update text_enc [(''sequence_length'', sequence_length)]) (\<lambda>_.
     py_bind (py_when (hasattr (text_encoder_2 model))
                (py_bind (py_getitem input_shapes ''text_encoder'') (\<lambda>shared.
                 py_setitem input_shapes ''text_encoder_2'' shared))) (\<lambda>_.
     py_bind (py_getitem input_shapes ''unet'') (\<lambda>unet.
     py_bind (py_update unet
                [(''sequence_length'', sequence_length),
                 (''num_channels'', unet_num_channels),
                 (''height'', scaled_height),
                 (''width'', scaled_width)]) (\<lambda>_.
     py_bind (py_when (list_truthy controlnets)
                (py_bind (py_getitem input_shapes ''unet'') (\<lambda>unet_c.
                 py_setitem unet_c ''vae_scale_factor'' vae_scale_factor))) (\<lambda>_.
     py_bind (py_getitem input_shapes ''vae_encoder'') (\<lambda>vae_enc.
     py_bind (py_update vae_enc
                [(''num_channels'', vae_encoder_num_channels),
                 (''height'', height),
                 (''width'', width)]) (\<lambda>_.
     py_bind (py_getitem input_shapes ''vae_decoder'') (\<lambda>vae_dec.
     py_bind (py_update vae_dec
                [(''num_channels'', vae_decoder_num_channels),
                 (''height'', scaled_height),
                 (''width'', scaled_width)]) (\<lambda>_.
     py_bind (py_when (list_truthy controlnets)
                (py_bind (py_getitem input_shapes ''unet'') (\<lambda>unet_b.
                 py_bind (py_getitem unet_b ''batch_size'') (\<lambda>batch_size.
                 py_bind (py_lift
                   (case text_encoder model of
                      Missing \<Rightarrow> Inl (AttributeError (NoAttribute ''text_encoder''))
                    | IsNone \<Rightarrow> Inl (AttributeError (NoAttribute ''config''))
                    | Has hidden \<Rightarrow> Inr hidden)) (\<lambda>encoder_hidden_size.
                 py_bind (py_new_dict
                            [(''batch_size'', batch_size),
                             (''sequence_length'', sequence_length),
                             (''num_channels'', unet_num_channels),
                             (''height'', scaled_height),
                             (''width'', scaled_width),
                             (''vae_scale_factor'', vae_scale_factor),
                             (''encoder_hidden_size'', encoder_hidden_size)]) (\<lambda>controlnet.
                 py_setitem input_shapes ''controlnet'' controlnet)))))) (\<lambda>_.
     py_return input_shapes))))))))))))))))))"

section \<open>External collaborators\<close>

text \<open>
  Modelled from the spec: the constants of \<open>neuron.utils\<close>, which are not among the
  sources. The spec names the components \<open>text_encoder\<close>, \<open>unet\<close>, \<open>vae_encoder\<close>,
  \<open>vae_decoder\<close>, the two halves \<open>encoder\<close> and \<open>decoder\<close>, and the artifact
  \<open>model.neuron\<close>.
\<close>

definition ENCODER_NAME :: string where "ENCODER_NAME = ''encoder''"
definition DECODER_NAME :: string where "DECODER_NAME = ''decoder''"
definition NEURON_FILE_NAME :: string where "NEURON_FILE_NAME = ''model.neuron''"
definition DIFFUSION_MODEL_TEXT_ENCODER_NAME :: string where
  "DIFFUSION_MODEL_TEXT_ENCODER_NAME = ''text_encoder''"
definition DIFFUSION_MODEL_TEXT_ENCODER_2_NAME :: string where
  "DIFFUSION_MODEL_TEXT_ENCODER_2_NAME = ''text_encoder_2''"
definition DIFFUSION_MODEL_UNET_NAME :: string where
  "DIFFUSION_MODEL_UNET_NAME = ''unet''"
definition DIFFUSION_MODEL_VAE_ENCODER_NAME :: string where
  "DIFFUSION_MODEL_VAE_ENCODER_NAME = ''vae_encoder''"
definition DIFFUSION_MODEL_VAE_DECODER_NAME :: string where
  "DIFFUSION_MODEL_VAE_DECODER_NAME = ''vae_decoder''"
definition DIFFUSION_MODEL_CONTROLNET_NAME :: string where
  "DIFFUSION_MODEL_CONTROLNET_NAME = ''controlnet''"

text \<open>
  The keyword arguments of \<open>main_export\<close>, which \<open>load_models_and_neuron_configs\<close> and
  \<open>get_submodels_and_neuron_configs\<close> receive in turn. \<open>arg_forwarded\<close> holds the
  arguments this module only hands on to its collaborators (\<open>compiler_kwargs\<close>, \<open>atol\<close>,
  \<open>cache_dir\<close>, \<open>revision\<close>, \<open>optlevel\<close>, ...); \<open>arg_input_shapes\<close> is \<open>**input_shapes\<close>.
\<close>

record 'o export_args =
  arg_model_name_or_path :: pyval
  arg_output :: string
  arg_model :: "py_model option"
  arg_task :: string
  arg_dynamic_batch_size :: bool
  arg_subfolder :: string
  arg_do_validation :: bool
  arg_submodels :: pyval
  arg_output_attentions :: bool
  arg_output_hidden_states :: bool
  arg_library_name :: pyval
  arg_lora_model_ids :: pyval
  arg_lora_weight_names :: pyval
  arg_lora_adapter_names :: pyval
  arg_lora_scales :: pyval
  arg_controlnet_model_ids :: pyval
  arg_input_shapes :: pydict
  arg_forwarded :: 'o

text \<open>A submodel entry holds the whole model or one component a collaborator extracted.\<close>

datatype 'g subgraph = Whole py_model | Part 'g

text \<open>What \<open>get_stable_diffusion_models_for_export\<close> is called with.\<close>

record 'cn sd_export_call =
  sd_pipeline :: py_model
  sd_task :: string
  sd_text_encoder_input_shapes :: pyval
  sd_unet_input_shapes :: pyval
  sd_vae_encoder_input_shapes :: pyval
  sd_vae_decoder_input_shapes :: pyval
  sd_dynamic_batch_size :: bool
  sd_output_hidden_states :: bool
  sd_lora_model_ids :: pyval
  sd_lora_weight_names :: pyval
  sd_lora_adapter_names :: pyval
  sd_lora_scales :: pyval
  sd_controlnets :: "'cn list option"
  sd_controlnet_input_shapes :: pyval

text \<open>
  The functions this module imports and calls. Each may raise; those that write files take
  the disk and return it. They read the heap and do not write it. \<open>is_neuron_available\<close>
  is true when the older compiler generation (neuron-cc) is the active one.
  \<open>encoder_config\<close> and \<open>decoder_config\<close> build the two export configurations inside
  \<open>get_encoder_decoder_models_for_export\<close>; \<open>construct_config\<close> is the call of the
  constructor \<open>get_exporter_config_constructor\<close> returns; \<open>mkdir_parents\<close> is
  \<open>output.parent.mkdir(parents=True)\<close> behind its \<open>exists\<close> test.
\<close>

record ('fs, 'g, 'cfg, 'ctor, 'cn, 'o) env =
  is_neuron_available :: bool
  map_from_synonym :: "string \<Rightarrow> error + string"
  mkdir_parents :: "string \<Rightarrow> 'fs \<Rightarrow> error option \<times> 'fs"
  infer_library_from_model :: "pyval \<Rightarrow> string \<Rightarrow> pyval \<Rightarrow> error + pyval"
  get_model_from_task :: "'o export_args \<Rightarrow> pyval \<Rightarrow> error + py_model"
  load_controlnets :: "pyval \<Rightarrow> error + 'cn list"
  check_compiler_compatibility_for_stable_diffusion :: "error option"
  replace_stable_diffusion_submodels :: "py_model \<Rightarrow> pyval \<Rightarrow> error + py_model"
  save_pretrained :: "py_model \<Rightarrow> string \<Rightarrow> string \<Rightarrow> 'fs \<Rightarrow> error option \<times> 'fs"
  save_config :: "py_model \<Rightarrow> string \<Rightarrow> 'fs \<Rightarrow> error option \<times> 'fs"
  maybe_save_preprocessors :: "pyval \<Rightarrow> string \<Rightarrow> string \<Rightarrow> 'fs \<Rightarrow> error option \<times> 'fs"
  get_stable_diffusion_models_for_export ::
    "'cn sd_export_call \<Rightarrow> pydict list \<Rightarrow> error + (string \<times> 'g subgraph \<times> 'cfg) list"
  encoder_config ::
    "py_model \<Rightarrow> string \<Rightarrow> bool \<Rightarrow> pyval \<Rightarrow> pydict list \<Rightarrow> bool \<Rightarrow> bool \<Rightarrow> error + 'cfg"
  decoder_config ::
    "py_model \<Rightarrow> string \<Rightarrow> bool \<Rightarrow> pyval \<Rightarrow> pydict list \<Rightarrow> bool \<Rightarrow> bool \<Rightarrow> error + 'cfg"
  get_exporter_config_constructor :: "py_model \<Rightarrow> string \<Rightarrow> pyval \<Rightarrow> error + 'ctor"
  check_mandatory_input_shapes :: "'ctor \<Rightarrow> string \<Rightarrow> pyval \<Rightarrow> pydict list \<Rightarrow> error + pydict"
  construct_config :: "'ctor \<Rightarrow> py_model \<Rightarrow> bool \<Rightarrow> pydict \<Rightarrow> error + 'cfg"
  export_models ::
    "'o export_args \<Rightarrow> (string \<times> 'g subgraph \<times> 'cfg) list \<Rightarrow> (string \<times> string) list \<Rightarrow>
       'fs \<Rightarrow> (error + (string \<times> string list) list) \<times> 'fs"
  validate_models_outputs ::
    "'o export_args \<Rightarrow> (string \<times> 'g subgraph \<times> 'cfg) list \<Rightarrow> (string \<times> string list) list \<Rightarrow>
       (string \<times> string) list \<Rightarrow> 'fs \<Rightarrow> error option"

text \<open>Running a collaborator inside this module: one that only computes, one that writes files.\<close>

definition py_call :: "error option \<Rightarrow> (unit, 'fs) py" where
  "py_call r = py_lift (case r of None \<Rightarrow> Inr () | Some e \<Rightarrow> Inl e)"

definition py_disk :: "('fs \<Rightarrow> error option \<times> 'fs) \<Rightarrow> (unit, 'fs) py" where
  "py_disk f w =
     (case f (disk w) of
        (None, d) \<Rightarrow> (Inr (), w\<lparr>disk := d\<rparr>)
      | (Some e, d) \<Rightarrow> (Inl e, w\<lparr>disk := d\<rparr>))"

definition py_read_heap :: "(pydict list \<Rightarrow> error + 'a) \<Rightarrow> ('a, 'fs) py" where
  "py_read_heap f w = (f (heap w), w)"

definition py_truth :: "pyval \<Rightarrow> (bool, 'fs) py" where
  "py_truth v w = (Inr (py_truthy (heap w) v), w)"

text \<open>\<open>str(idx)\<close> for an index.\<close>

fun str_of_nat :: "nat \<Rightarrow> string" where
  "str_of_nat n =
     (if n < 10 then [char_of (48 + n)]
      else str_of_nat (n div 10) @ [char_of (48 + n mod 10)])"

section \<open>Model decomposition\<close>

text \<open>
  \<open>_get_submodels_and_neuron_configs_for_stable_diffusion\<close>. The artifact names are a
  dictionary built key by key; the controlnet entries are added by the loop over
  \<open>range(len(controlnets))\<close>.
\<close>

definition controlnet_output_names ::
  "'cn list option \<Rightarrow> (string \<times> string) list \<Rightarrow> (string \<times> string) list" where
  "controlnet_output_names controlnets names =
     (case controlnets of
        None \<Rightarrow> names
      | Some cs \<Rightarrow>
          if cs = [] then names
          else fold (\<lambda>idx acc.
                  let controlnet_name = DIFFUSION_MODEL_CONTROLNET_NAME @ ''_'' @ str_of_nat idx
                  in AList.update controlnet_name (os_path_join controlnet_name NEURON_FILE_NAME) acc)
                 [0..<length cs] names)"

definition get_submodels_and_neuron_configs_for_stable_diffusion ::
  "('fs, 'g, 'cfg, 'ctor, 'cn, 'o) env \<Rightarrow> py_model \<Rightarrow> pyval \<Rightarrow> 'cn list option \<Rightarrow> 'o export_args \<Rightarrow>
     ((string \<times> 'g subgraph \<times> 'cfg) list \<times> (string \<times> string) list, 'fs) py" where
  "get_submodels_and_neuron_configs_for_stable_diffusion env model0 input_shapes0 controlnets args =
     py_bind (py_call (check_compiler_compatibility_for_stable_diffusion env)) (\<lambda>_.
     py_bind (py_lift (replace_stable_diffusion_submodels env model0 (arg_submodels args))) (\<lambda>model.
     py_bind (if is_neuron_available env
              then py_raise (RuntimeError ''Stable diffusion export is not supported by neuron-cc on inf1'')
              else py_return ()) (\<lambda>_.
     py_bind (infer_stable_diffusion_shapes_from_diffusers input_shapes0 model controlnets) (\<lambda>input_shapes.
     py_bind (py_disk (save_pretrained env model ''scheduler''
                         (os_path_join (arg_output args) ''scheduler''))) (\<lambda>_.
     py_bind (py_when (is_not_None (tokenizer model))
                (py_disk (save_pretrained env model ''tokenizer''
                            (os_path_join (arg_output args) ''tokenizer'')))) (\<lambda>_.
     py_bind (py_when (is_not_None (tokenizer_2 model))
                (py_disk (save_pretrained env model ''tokenizer_2''
                            (os_path_join (arg_output args) ''tokenizer_2'')))) (\<lambda>_.
     py_bind (py_when (is_not_None (feature_extractor model))
                (py_disk (save_pretrained env model ''feature_extractor''
                            (os_path_join (arg_output args) ''feature_extractor'')))) (\<lambda>_.
     py_bind (py_disk (save_config env model (arg_output args))) (\<lambda>_.
     case normalize_lora_params (arg_lora_model_ids args) (arg_lora_weight_names args)
            (arg_lora_adapter_names args) (arg_lora_scales args) of
       (lora_model_ids, lora_weight_names, lora_adapter_names, lora_scales) \<Rightarrow>
     py_bind (py_getitem input_shapes ''text_encoder'') (\<lambda>text_encoder_shapes.
     py_bind (py_getitem input_shapes ''unet'') (\<lambda>unet_shapes.
     py_bind (py_getitem input_shapes ''vae_encoder'') (\<lambda>vae_encoder_shapes.
     py_bind (py_getitem input_shapes ''vae_decoder'') (\<lambda>vae_decoder_shapes.
     py_bind (py_get input_shapes ''controlnet'' PNone) (\<lambda>controlnet_shapes.
     py_bind (py_read_heap (get_stable_diffusion_models_for_export env
                \<lparr>sd_pipeline = model, sd_task = arg_task args,
                 sd_text_encoder_input_shapes = text_encoder_shapes,
                 sd_unet_input_shapes = unet_shapes,
                 sd_vae_encoder_input_shapes = vae_encoder_shapes,
                 sd_vae_decoder_input_shapes = vae_decoder_shapes,
                 sd_dynamic_batch_size = arg_dynamic_batch_size args,
                 sd_output_hidden_states = arg_output_hidden_states args,
                 sd_lora_model_ids = lora_model_ids,
                 sd_lora_weight_names = lora_weight_names,
                 sd_lora_adapter_names = lora_adapter_names,
                 sd_lora_scales = lora_scales,
                 sd_controlnets = controlnets,
                 sd_controlnet_input_shapes = controlnet_shapes\<rparr>)) (\<lambda>models_and_neuron_configs.
     let output_model_names =
           [(DIFFUSION_MODEL_UNET_NAME, os_path_join DIFFUSION_MODEL_UNET_NAME NEURON_FILE_NAME),
            (DIFFUSION_MODEL_VAE_ENCODER_NAME,
               os_path_join DIFFUSION_MODEL_VAE_ENCODER_NAME NEURON_FILE_NAME),
            (DIFFUSION_MODEL_VAE_DECODER_NAME,
               os_path_join DIFFUSION_MODEL_VAE_DECODER_NAME NEURON_FILE_NAME)];
         output_model_names =
           (if is_not_None (text_encoder model)
            then AList.update DIFFUSION_MODEL_TEXT_ENCODER_NAME
                   (os_path_join DIFFUSION_MODEL_TEXT_ENCODER_NAME NEURON_FILE_NAME) output_model_names
            else output_model_names);
         output_model_names =
           (if is_not_None (text_encoder_2 model)
            then AList.update DIFFUSION_MODEL_TEXT_ENCODER_2_NAME
                   (os_path_join DIFFUSION_MODEL_TEXT_ENCODER_2_NAME NEURON_FILE_NAME) output_model_names
            else output_model_names);
         output_model_names = controlnet_output_names controlnets output_model_names
     in py_return (models_and_neuron_configs, output_model_names))))))))))))))))"

text \<open>
  Modelled from the spec: \<open>get_encoder_decoder_models_for_export\<close>, which is not among the
  sources. The spec has it split the model into exactly two entries, \<open>encoder\<close> and
  \<open>decoder\<close>, each with its own export configuration.
\<close>

definition get_encoder_decoder_models_for_export ::
  "('fs, 'g, 'cfg, 'ctor, 'cn, 'o) env \<Rightarrow> py_model \<Rightarrow> string \<Rightarrow> bool \<Rightarrow> pyval \<Rightarrow> bool \<Rightarrow> bool \<Rightarrow>
     pydict list \<Rightarrow> error + (string \<times> 'g subgraph \<times> 'cfg) list" where
  "get_encoder_decoder_models_for_export env model task_name dynamic input_shapes attentions hidden h =
     (case encoder_config env model task_name dynamic input_shapes h attentions hidden of
        Inl e \<Rightarrow> Inl e
      | Inr encoder_neuron_config \<Rightarrow>
          (case decoder_config env model task_name dynamic input_shapes h attentions hidden of
             Inl e \<Rightarrow> Inl e
           | Inr decoder_neuron_config \<Rightarrow>
               Inr (AList.update DECODER_NAME (Whole model, decoder_neuron_config)
                      (AList.update ENCODER_NAME (Whole model, encoder_neuron_config) []))))"

text \<open>\<open>_get_submodels_and_neuron_configs_for_encoder_decoder\<close>.\<close>

definition get_submodels_and_neuron_configs_for_encoder_decoder ::
  "('fs, 'g, 'cfg, 'ctor, 'cn, 'o) env \<Rightarrow> py_model \<Rightarrow> pyval \<Rightarrow> string \<Rightarrow> string \<Rightarrow> bool \<Rightarrow> pyval \<Rightarrow>
     bool \<Rightarrow> bool \<Rightarrow> ((string \<times> 'g subgraph \<times> 'cfg) list \<times> (string \<times> string) list, 'fs) py" where
  "get_submodels_and_neuron_configs_for_encoder_decoder env model input_shapes task_name output_dir
      dynamic model_name output_attentions output_hidden_states =
     (if is_neuron_available env
      then py_raise (RuntimeError ''Encoder-decoder models export is not supported by neuron-cc on inf1'')
      else
        py_bind (py_read_heap (get_encoder_decoder_models_for_export env model task_name dynamic
                   input_shapes output_attentions output_hidden_states)) (\<lambda>models_and_neuron_configs.
        let output_model_names =
              AList.update DECODER_NAME (os_path_join DECODER_NAME NEURON_FILE_NAME)
                (AList.update ENCODER_NAME (os_path_join ENCODER_NAME NEURON_FILE_NAME) [])
        in
        py_bind (py_disk (maybe_save_preprocessors env model_name output_dir [])) (\<lambda>_.
        py_return (models_and_neuron_configs, output_model_names))))"

text \<open>
  \<open>get_submodels_and_neuron_configs\<close>. \<open>input_shapes\<close> refers to the dictionary of the
  caller's \<open>**input_shapes\<close>; \<open>library_name\<close> and \<open>controlnets\<close> are passed next to the
  other keyword arguments, which the caller hands on unchanged. \<open>model_is_encoder_decoder\<close>
  is the local \<open>is_encoder_decoder\<close>: \<open>getattr(model.config, "is_encoder_decoder", False)\<close>
  when the configuration is a \<open>PretrainedConfig\<close>, and \<open>False\<close> otherwise.
\<close>

definition model_is_encoder_decoder :: "py_model \<Rightarrow> pyval" where
  "model_is_encoder_decoder model =
     (if config_is_pretrained model
      then (case config_is_encoder_decoder model of None \<Rightarrow> PBool False | Some flag \<Rightarrow> flag)
      else PBool False)"

definition get_submodels_and_neuron_configs ::
  "('fs, 'g, 'cfg, 'ctor, 'cn, 'o) env \<Rightarrow> py_model \<Rightarrow> pyval \<Rightarrow> pyval \<Rightarrow> 'cn list option \<Rightarrow>
     'o export_args \<Rightarrow> ((string \<times> 'g subgraph \<times> 'cfg) list \<times> (string \<times> string) list, 'fs) py" where
  "get_submodels_and_neuron_configs env model input_shapes library controlnets args =
     (let is_stable_diffusion = py_in_str ''stable-diffusion'' (arg_task args);
          is_encoder_decoder = model_is_encoder_decoder model
      in
      if is_stable_diffusion then
        (if arg_output_attentions args
         then py_raise (ValueError ''output_attentions is not supported by the task yet'')
         else get_submodels_and_neuron_configs_for_stable_diffusion env model input_shapes controlnets args)
      else
        py_bind (py_truth is_encoder_decoder) (\<lambda>encoder_decoder.
        if encoder_decoder then
          get_submodels_and_neuron_configs_for_encoder_decoder env model input_shapes (arg_task args)
            (arg_output args) (arg_dynamic_batch_size args) (arg_model_name_or_path args)
            (arg_output_attentions args) (arg_output_hidden_states args)
        else if arg_output_attentions args \<or> arg_output_hidden_states args then
          py_raise (ValueError ''output_attentions and output_hidden_states are not supported by the task yet'')
        else
          py_bind (py_lift (get_exporter_config_constructor env model (arg_task args) library))
            (\<lambda>neuron_config_constructor.
          py_bind (py_read_heap (check_mandatory_input_shapes env neuron_config_constructor
                     (arg_task args) input_shapes)) (\<lambda>checked_shapes.
          py_bind (py_lift (construct_config env neuron_config_constructor model
                     (arg_dynamic_batch_size args) checked_shapes)) (\<lambda>neuron_config.
          py_bind (py_truth (case name_or_path model of None \<Rightarrow> PNone | Some n \<Rightarrow> n)) (\<lambda>has_name.
          let model_name =
                (if has_name then (case name_or_path model of None \<Rightarrow> PNone | Some n \<Rightarrow> n)
                 else arg_model_name_or_path args)
          in
          py_bind (py_truth model_name) (\<lambda>named.
          py_bind (py_lift
                    (if named
                     then (case model_name of
                             PStr s \<Rightarrow> Inr (last (split_on CHR ''/'' s))
                           | _ \<Rightarrow> Inl (AttributeError (NoAttribute ''split'')))
                     else Inr (model_type model))) (\<lambda>model_name.
          let output_model_names = [(model_name, ''model.neuron'')];
              models_and_neuron_configs = [(model_name, (Whole model, neuron_config))]
          in
          py_bind (py_disk (maybe_save_preprocessors env (arg_model_name_or_path args)
                     (arg_output args) (arg_subfolder args))) (\<lambda>_.
          py_return (models_and_neuron_configs, output_model_names))))))))))"

section \<open>Loading and the export run\<close>

text \<open>
  \<open>load_models_and_neuron_configs\<close>. The local \<open>controlnets\<close> is assigned only under
  \<open>if controlnet_model_ids:\<close>; it is \<open>None\<close> here while it is unbound, and reading it
  then raises \<open>UnboundLocalError\<close>. The dictionary of \<open>**input_shapes\<close> is made when the
  function is entered.
\<close>

definition load_models_and_neuron_configs ::
  "('fs, 'g, 'cfg, 'ctor, 'cn, 'o) env \<Rightarrow> 'o export_args \<Rightarrow>
     ((string \<times> 'g subgraph \<times> 'cfg) list \<times> (string \<times> string) list, 'fs) py" where
  "load_models_and_neuron_configs env args =
     py_bind (py_new_dict (arg_input_shapes args)) (\<lambda>input_shapes.
     py_bind (py_lift (infer_library_from_model env (arg_model_name_or_path args)
                (arg_subfolder args) (arg_library_name args))) (\<lambda>library.
     py_bind (case arg_model args of
                None \<Rightarrow> py_lift (get_model_from_task env args library)
              | Some given \<Rightarrow> py_return given) (\<lambda>model.
     py_bind (py_truth (arg_controlnet_model_ids args)) (\<lambda>wanted.
     py_bind (if wanted
              then py_bind (py_lift (load_controlnets env (arg_controlnet_model_ids args)))
                     (\<lambda>loaded. py_return (Some loaded))
              else py_return None) (\<lambda>controlnets.
     case controlnets of
       None \<Rightarrow> py_raise (UnboundLocalError ''controlnets'')
     | Some bound \<Rightarrow>
         get_submodels_and_neuron_configs env model input_shapes library (Some bound) args)))))"

text \<open>
  \<open>main_export\<close>, in its two parts: everything up to and including the export driver, and
  the block under \<open>if do_validation is True\<close>. \<open>drop_vae_encoder\<close> is the three \<open>pop\<close>s,
  the first of which has no default; \<open>after_validation\<close> is the \<open>try\<close> statement's
  handlers, which give back the error that leaves \<open>main_export\<close>, if any.
\<close>

definition export_stage ::
  "('fs, 'g, 'cfg, 'ctor, 'cn, 'o) env \<Rightarrow> 'o export_args \<Rightarrow>
     ('o export_args \<times> (string \<times> 'g subgraph \<times> 'cfg) list \<times> (string \<times> string) list \<times>
      (string \<times> string list) list, 'fs) py" where
  "export_stage env args0 =
     py_bind (py_disk (mkdir_parents env (arg_output args0))) (\<lambda>_.
     py_bind (py_lift (map_from_synonym env (arg_task args0))) (\<lambda>task_name.
     let args = args0\<lparr>arg_task := task_name\<rparr> in
     py_bind (load_models_and_neuron_configs env args) (\<lambda>(models_and_neuron_configs, output_model_names).
     py_bind (\<lambda>w. case export_models env args models_and_neuron_configs output_model_names (disk w) of
                     (r, d) \<Rightarrow> (r, w\<lparr>disk := d\<rparr>)) (\<lambda>neuron_outputs.
     py_return (args, models_and_neuron_configs, output_model_names, neuron_outputs)))))"

definition drop_vae_encoder ::
  "string \<Rightarrow> (string \<times> 'a) list \<Rightarrow> (string \<times> 'b) list \<Rightarrow> (string \<times> 'c) list \<Rightarrow>
     error + (string \<times> 'a) list \<times> (string \<times> 'b) list \<times> (string \<times> 'c) list" where
  "drop_vae_encoder task_name neuron_outputs models_and_neuron_configs output_model_names =
     (if py_in_str ''stable-diffusion'' task_name
      then (case map_of neuron_outputs ''vae_encoder'' of
              None \<Rightarrow> Inl (KeyError ''vae_encoder'')
            | Some _ \<Rightarrow>
                Inr (AList.delete ''vae_encoder'' neuron_outputs,
                     AList.delete ''vae_encoder'' models_and_neuron_configs,
                     AList.delete ''vae_encoder'' output_model_names))
      else Inr (neuron_outputs, models_and_neuron_configs, output_model_names))"

fun after_validation :: "error option \<Rightarrow> error option" where
  "after_validation None = None"
| "after_validation (Some (ShapeError msg)) = Some (ShapeError msg)"
| "after_validation (Some (AtolError msg)) = None"
| "after_validation (Some (OutputMatchError msg)) = None"
| "after_validation (Some e) = (if is_Exception e then None else Some e)"

definition validation_stage ::
  "('fs, 'g, 'cfg, 'ctor, 'cn, 'o) env \<Rightarrow> 'o export_args \<Rightarrow> (string \<times> 'g subgraph \<times> 'cfg) list \<Rightarrow>
     (string \<times> string) list \<Rightarrow> (string \<times> string list) list \<Rightarrow> (unit, 'fs) py" where
  "validation_stage env args models_and_neuron_configs output_model_names neuron_outputs =
     py_bind (py_lift (drop_vae_encoder (arg_task args) neuron_outputs models_and_neuron_configs
                output_model_names)) (\<lambda>(outputs, models, names).
     (\<lambda>w. (case after_validation (validate_models_outputs env args models outputs names (disk w)) of
              None \<Rightarrow> Inr ()
            | Some e \<Rightarrow> Inl e, w)))"

definition main_export ::
  "('fs, 'g, 'cfg, 'ctor, 'cn, 'o) env \<Rightarrow> 'o export_args \<Rightarrow> (unit, 'fs) py" where
  "main_export env args0 =
     py_bind (export_stage env args0)
       (\<lambda>(args, models_and_neuron_configs, output_model_names, neuron_outputs).
     if arg_do_validation args
     then validation_stage env args models_and_neuron_configs output_model_names neuron_outputs
     else py_return ())"

section \<open>Concrete inputs\<close>

text \<open>
  A pipeline whose VAE has three blocks and whose tokenizer has maximum length 77, and a
  state holding the shapes \<open>build_stable_diffusion_components_mandatory_shapes\<close> yields
  for batch size 1 and a 64 by 64 image: object 0 is \<open>input_shapes\<close>, objects 1 to 4
  are its four entries.
\<close>

definition example_pipeline :: py_model where
  "example_pipeline =
     \<lparr>name_or_path = None, config_is_pretrained = False, config_is_encoder_decoder = None,
      model_type = ''stable-diffusion'',
      tokenizer = Has (PInt 77), tokenizer_2 = Missing, feature_extractor = IsNone,
      text_encoder = Has (PInt 768), text_encoder_2 = Missing,
      unet_in_channels = PInt 4, vae_in_channels = PInt 3, vae_latent_channels = PInt 4,
      vae_block_out_channels = [PInt 128, PInt 256, PInt 512]\<rparr>"

definition example_world :: "unit world" where
  "example_world =
     \<lparr>heap =
        [[(''text_encoder'', PRef 1), (''unet'', PRef 2), (''vae_encoder'', PRef 3),
          (''vae_decoder'', PRef 4)],
         [(''batch_size'', PInt 1), (''sequence_length'', PNone)],
         [(''batch_size'', PInt 1), (''sequence_length'', PNone), (''num_channels'', PNone),
          (''height'', PInt 64), (''width'', PInt 64)],
         [(''batch_size'', PInt 1), (''num_channels'', PNone), (''height'', PInt 64),
          (''width'', PInt 64)],
         [(''batch_size'', PInt 1), (''num_channels'', PNone), (''height'', PInt 64),
          (''width'', PInt 64)]],
      disk = ()\<rparr>"

text \<open>An encoder model known by an identifier, and one that is an encoder-decoder.\<close>

definition example_encoder :: py_model where
  "example_encoder =
     \<lparr>name_or_path = Some (PStr ''google-bert/bert-base-uncased''), config_is_pretrained = True,
      config_is_encoder_decoder = Some (PBool False), model_type = ''bert'',
      tokenizer = Missing, tokenizer_2 = Missing, feature_extractor = Missing,
      text_encoder = Missing, text_encoder_2 = Missing,
      unet_in_channels = PNone, vae_in_channels = PNone, vae_latent_channels = PNone,
      vae_block_out_channels = []\<rparr>"

definition example_seq2seq :: py_model where
  "example_seq2seq =
     example_encoder\<lparr>name_or_path := Some (PStr ''google-t5/t5-small''),
       config_is_encoder_decoder := Some (PBool True), model_type := ''t5''\<rparr>"

text \<open>
  Collaborators that all succeed: \<open>older\<close> says whether neuron-cc is the active compiler,
  \<open>verdict\<close> is what validation raises, if anything.
\<close>

definition example_env :: "bool \<Rightarrow> error option \<Rightarrow> (unit, unit, unit, unit, unit, unit) env" where
  "example_env older verdict =
     \<lparr>is_neuron_available = older,
      map_from_synonym = (\<lambda>name. Inr name),
      mkdir_parents = (\<lambda>path d. (None, d)),
      infer_library_from_model = (\<lambda>name sub lib. Inr (PStr ''transformers'')),
      get_model_from_task = (\<lambda>args lib. Inr example_encoder),
      load_controlnets = (\<lambda>ids. Inr [()]),
      check_compiler_compatibility_for_stable_diffusion = None,
      replace_stable_diffusion_submodels = (\<lambda>pipe subs. Inr pipe),
      save_pretrained = (\<lambda>pipe part path d. (None, d)),
      save_config = (\<lambda>pipe path d. (None, d)),
      maybe_save_preprocessors = (\<lambda>name path sub d. (None, d)),
      get_stable_diffusion_models_for_export =
        (\<lambda>call h. Inr [(''text_encoder'', Part (), ()), (''unet'', Part (), ()),
                        (''vae_encoder'', Part (), ()), (''vae_decoder'', Part (), ()),
                        (''controlnet_0'', Part (), ())]),
      encoder_config = (\<lambda>m t dyn shapes h att hid. Inr ()),
      decoder_config = (\<lambda>m t dyn shapes h att hid. Inr ()),
      get_exporter_config_constructor = (\<lambda>m t lib. Inr ()),
      check_mandatory_input_shapes =
        (\<lambda>ctor t shapes h. Inr [(''batch_size'', PInt 1), (''sequence_length'', PInt 128)]),
      construct_config = (\<lambda>ctor m dyn shapes. Inr ()),
      export_models = (\<lambda>args ms names d. (Inr (map (\<lambda>entry. (fst entry, [''sample''])) ms), d)),
      validate_models_outputs = (\<lambda>args ms outs names d. verdict)\<rparr>"

definition example_args :: "unit export_args" where
  "example_args =
     \<lparr>arg_model_name_or_path = PStr ''google-bert/bert-base-uncased'', arg_output = ''out'',
      arg_model = None, arg_task = ''text-classification'', arg_dynamic_batch_size = False,
      arg_subfolder = [], arg_do_validation = True, arg_submodels = PNone,
      arg_output_attentions = False, arg_output_hidden_states = False, arg_library_name = PNone,
      arg_lora_model_ids = PNone, arg_lora_weight_names = PNone, arg_lora_adapter_names = PNone,
      arg_lora_scales = PNone, arg_controlnet_model_ids = PNone,
      arg_input_shapes = [(''batch_size'', PInt 1), (''sequence_length'', PInt 128)],
      arg_forwarded = ()\<rparr>"

definition example_sd_args :: "unit export_args" where
  "example_sd_args =
     example_args\<lparr>arg_model_name_or_path := PStr ''stabilityai/stable-diffusion-2-1-base'',
       arg_model := Some example_pipeline, arg_task := ''stable-diffusion'',
       arg_controlnet_model_ids := PStr ''lllyasviel/sd-controlnet-canny'',
       arg_input_shapes := hd (heap example_world)\<rparr>"

text \<open>
  Arguments as the command line gives them for a 64 by 64 image, the parameter names of the
  shape builder, and a builder that hands back the shapes it is given.
\<close>

definition example_cli_args :: pydict where
  "example_cli_args =
     [(''model'', PStr ''stabilityai/stable-diffusion-2-1-base''),
      (''do_classifier_free_guidance'', PBool True),
      (''batch_size'', PInt 1), (''height'', PInt 64), (''width'', PInt 64)]"

definition example_build_args :: "string list" where
  "example_build_args =
     [''batch_size'', ''sequence_length'', ''unet_num_channels'', ''vae_encoder_num_channels'',
      ''vae_decoder_num_channels'', ''height'', ''width'', ''num_images_per_prompt'',
      ''do_classifier_free_guidance'']"

definition example_build :: "pyval \<Rightarrow> pydict \<Rightarrow> error + pydict" where
  "example_build do_classifier_free_guidance shapes = Inr shapes"

text \<open>
  The spec's words for the compression factor, "2^(number of scale reduction stages)
  clamped to at least 8", for a VAE with \<open>n\<close> blocks.
\<close>

definition clamped_compression_factor :: "nat \<Rightarrow> int" where
  "clamped_compression_factor n = max 8 (2 ^ (n - 1))"

section \<open>Reading the heap, and reasoning about runs\<close>

text \<open>\<open>d[k1][k2]\<close> as the caller reads it in a given state.\<close>

definition lookup2 :: "'fs world \<Rightarrow> pyval \<Rightarrow> string \<Rightarrow> string \<Rightarrow> error + pyval" where
  "lookup2 w d k1 k2 = fst (py_bind (py_getitem d k1) (\<lambda>x. py_getitem x k2) w)"

definition heap_upd :: "addr \<Rightarrow> (pydict \<Rightarrow> pydict) \<Rightarrow> pydict list \<Rightarrow> pydict list" where
  "heap_upd a f h = h[a := f (h ! a)]"

text \<open>
  \<open>wp m Q E w\<close>: running \<open>m\<close> from \<open>w\<close> ends in a state satisfying \<open>Q\<close> when it returns
  and \<open>E\<close> when it raises.
\<close>

definition wp ::
  "('a, 'fs) py \<Rightarrow> ('a \<Rightarrow> 'fs world \<Rightarrow> bool) \<Rightarrow> (error \<Rightarrow> 'fs world \<Rightarrow> bool) \<Rightarrow> 'fs world \<Rightarrow> bool" where
  "wp m Q E w = (case m w of (Inr r, w') \<Rightarrow> Q r w' | (Inl e, w') \<Rightarrow> E e w')"

section \<open>Lemmas about dictionaries and shape normalisation\<close>

lemma dict_items_for_lookup:
  "dict_items_for d ns = Inr r \<Longrightarrow> map_of r n = (if n \<in> set ns then map_of d n else None)"
proof (induction ns arbitrary: r)
  case Nil
  then show ?case by simp
next
  case (Cons k ks)
  then show ?case
    by (auto split: option.splits sum.splits simp: delete_conv')
qed

lemma dict_items_for_present:
  "dict_items_for d ns = Inr r \<Longrightarrow> n \<in> set ns \<Longrightarrow> map_of d n \<noteq> None"
  by (induction ns arbitrary: r) (auto split: option.splits sum.splits)

lemma dict_items_for_total:
  "set ns \<subseteq> fst ` set d \<Longrightarrow> \<exists>r. dict_items_for d ns = Inr r"
proof (induction ns)
  case Nil
  then show ?case by simp
next
  case (Cons k ks)
  then obtain r where "dict_items_for d ks = Inr r" by auto
  moreover from Cons.prems obtain v where "map_of d k = Some v"
    by (cases "map_of d k") (auto simp: map_of_eq_None_iff)
  ultimately show ?case by simp
qed

lemma keys_delete: "fst ` set (AList.delete k d) = fst ` set d - {k}"
  by (induction d) (auto simp: AList.delete_eq)

lemma st_missing:
  assumes m: "map_of args ''model'' = Some (PStr s) \<or> (map_of args ''model'' = None \<and> s = [])"
    and D: "D = (if py_in_str ''clip'' (map lower_char s)
                 then [''text_batch_size'', ''image_batch_size'', ''sequence_length'',
                       ''num_channels'', ''width'', ''height'']
                 else [''batch_size'', ''sequence_length''])"
    and sub: "\<not> set D \<subseteq> fst ` set args"
  shows "\<exists>missing. normalize_sentence_transformers_input_shapes args
            = Inl (AttributeError (ShapesNotGiven D missing))
          \<and> set missing = set D - fst ` set args \<and> missing \<noteq> []"
proof -
  from m have low: "py_lower (dict_get args ''model'' (PStr [])) = Inr (map lower_char s)"
    by (auto simp: py_lower_def dict_get_def)
  let ?missing = "filter (\<lambda>n. n \<notin> set (map fst args)) D"
  have "normalize_sentence_transformers_input_shapes args = Inl (AttributeError (ShapesNotGiven D ?missing))"
    using sub unfolding normalize_sentence_transformers_input_shapes_def low D
    by (simp add: Let_def)
  moreover have "set ?missing = set D - fst ` set args" by auto
  moreover have "?missing \<noteq> []" using sub by (auto simp: filter_empty_conv)
  ultimately show ?thesis by blast
qed

lemma sd_missing:
  fixes build :: "pyval \<Rightarrow> pydict \<Rightarrow> error + 'r"
  assumes flag: "map_of args ''do_classifier_free_guidance'' = Some flag"
    and D: "D = filter (\<lambda>n. n \<notin> set removed_axes) (remdups build_args)"
    and sub: "\<not> set D \<subseteq> fst ` set args"
  shows "\<exists>missing. fst (normalize_stable_diffusion_input_shapes build_args build args)
            = Inl (AttributeError (ShapesNotGiven D missing))
          \<and> set missing = set D - fst ` set args \<and> missing \<noteq> []"
proof -
  let ?args = "AList.delete ''do_classifier_free_guidance'' args"
  have notin: "''do_classifier_free_guidance'' \<notin> set D"
    unfolding D by (simp add: removed_axes_def)
  have keys: "set D \<subseteq> fst ` set ?args \<longleftrightarrow> set D \<subseteq> fst ` set args"
    using notin by (auto simp: keys_delete)
  let ?missing = "filter (\<lambda>n. n \<notin> set (map fst ?args)) D"
  have "fst (normalize_stable_diffusion_input_shapes build_args build args)
          = Inl (AttributeError (ShapesNotGiven D ?missing))"
    using sub keys flag unfolding normalize_stable_diffusion_input_shapes_def D
    by (simp add: Let_def)
  moreover have "set ?missing = set D - fst ` set args"
    using notin by (auto simp: keys_delete)
  moreover have "?missing \<noteq> []" using sub keys by (auto simp: filter_empty_conv)
  ultimately show ?thesis by blast
qed

lemma sd_pop_effect:
  "map_of (snd (normalize_stable_diffusion_input_shapes build_args build args))
     = (map_of args)(''do_classifier_free_guidance'' := None)"
  unfolding normalize_stable_diffusion_input_shapes_def
  by (auto simp: Let_def delete_conv' split: option.splits sum.splits)


section \<open>Lemmas about heap updates and runs\<close>

lemma length_heap_upd [simp]: "length (heap_upd a f h) = length h"
  by (simp add: heap_upd_def)

lemma nth_heap_upd: "heap_upd a f h ! b = (if b = a \<and> a < length h then f (h ! a) else h ! b)"
  by (auto simp: heap_upd_def nth_list_update list_update_beyond)

lemma field_heap_updates:
  "map_of (heap_upd a (AList.updates ks vs) h ! b) k =
     (if b = a \<and> a < length h \<and> k \<in> fst ` set (zip ks vs) then map_of (rev (zip ks vs)) k
      else map_of (h ! b) k)"
proof -
  have "map_of (rev (zip ks vs)) k = None \<longleftrightarrow> k \<notin> fst ` set (zip ks vs)"
    by (simp add: map_of_eq_None_iff)
  then show ?thesis
    by (auto simp: nth_heap_upd updates_conv' map_upds_def map_add_def split: option.splits)
qed

lemma field_heap_update:
  "map_of (heap_upd a (AList.update k' v) h ! b) k =
     (if b = a \<and> a < length h \<and> k = k' then Some v else map_of (h ! b) k)"
  by (auto simp: nth_heap_upd update_conv')

lemma field_heap_append:
  "b < length h \<Longrightarrow> map_of ((h @ [d]) ! b) k = map_of (h ! b) k"
  by (simp add: nth_append)

lemmas field_simps = field_heap_updates field_heap_update field_heap_append

lemma wp_returns: "m w = (Inr r, w') \<Longrightarrow> wp m Q E w \<Longrightarrow> Q r w'"
  by (simp add: wp_def)

lemma wp_bind: "wp (py_bind m f) Q E w = wp m (\<lambda>x. wp (f x) Q E) E w"
  by (auto simp: wp_def py_bind_def split: prod.splits sum.splits)

lemma wp_return: "wp (py_return x) Q E w = Q x w"
  by (simp add: wp_def py_return_def)

lemma wp_lift: "wp (py_lift x) Q E w = (case x of Inr r \<Rightarrow> Q r w | Inl e \<Rightarrow> E e w)"
  by (auto simp: wp_def py_lift_def split: sum.splits)

lemma wp_getitem:
  "wp (py_getitem d k) Q (\<lambda>_ _. True) w =
     (\<forall>a v. d = PRef a \<longrightarrow> a < length (heap w) \<longrightarrow> map_of (heap w ! a) k = Some v \<longrightarrow> Q v w)"
  by (auto simp: wp_def py_getitem_def heap_lookup_def split: pyval.splits option.splits)

lemma wp_update:
  "wp (py_update d new) Q (\<lambda>_ _. True) w =
     (\<forall>a. d = PRef a \<longrightarrow> a < length (heap w) \<longrightarrow>
        Q () (w\<lparr>heap := heap_upd a (AList.updates (map fst new) (map snd new)) (heap w)\<rparr>))"
  by (auto simp: wp_def py_update_def heap_lookup_def heap_upd_def split: pyval.splits option.splits)

lemma wp_setitem:
  "wp (py_setitem d k v) Q (\<lambda>_ _. True) w =
     (\<forall>a. d = PRef a \<longrightarrow> a < length (heap w) \<longrightarrow>
        Q () (w\<lparr>heap := heap_upd a (AList.update k v) (heap w)\<rparr>))"
  by (auto simp: wp_def py_setitem_def heap_lookup_def heap_upd_def split: pyval.splits option.splits)

lemma wp_new_dict:
  "wp (py_new_dict kvs) Q E w = Q (PRef (length (heap w))) (w\<lparr>heap := heap w @ [kvs]\<rparr>)"
  by (simp add: wp_def py_new_dict_def)

lemmas wp_simps = wp_bind wp_return wp_lift wp_getitem wp_update wp_setitem wp_new_dict

lemma lookup2_simp:
  "a < length (heap w) \<Longrightarrow> map_of (heap w ! a) k1 = Some (PRef b) \<Longrightarrow> b < length (heap w) \<Longrightarrow>
   lookup2 w (PRef a) k1 k2 = (case map_of (heap w ! b) k2 of Some v \<Rightarrow> Inr v | None \<Rightarrow> Inl (KeyError k2))"
  by (simp add: lookup2_def py_bind_def py_getitem_def heap_lookup_def split: option.splits)

lemma infer_sequence_length_post:
  "wp (infer_stable_diffusion_shapes_from_diffusers input_shapes model controlnets)
     (\<lambda>r w'. lookup2 w' input_shapes ''text_encoder'' ''sequence_length'' = infer_sequence_length model
        \<and> lookup2 w' input_shapes ''unet'' ''sequence_length'' = infer_sequence_length model)
     (\<lambda>_ _. True) w"
  unfolding infer_stable_diffusion_shapes_from_diffusers_def Let_def py_when_def
  apply (cases "hasattr (text_encoder_2 model)"; cases "list_truthy controlnets")
     apply (simp_all only: if_True if_False)
     apply (simp_all add: wp_simps field_simps split: sum.split)
     apply (auto simp: lookup2_simp field_simps)
  done

lemma infer_frame_post:
  "wp (infer_stable_diffusion_shapes_from_diffusers input_shapes model controlnets)
     (\<lambda>r w'. r = input_shapes \<and> disk w' = disk w \<and> length (heap w) \<le> length (heap w') \<and>
        (\<forall>a0 b. input_shapes = PRef a0 \<longrightarrow> b < length (heap w) \<longrightarrow> b \<noteq> a0 \<longrightarrow>
           map_of (heap w ! a0) ''text_encoder'' \<noteq> Some (PRef b) \<longrightarrow>
           map_of (heap w ! a0) ''unet'' \<noteq> Some (PRef b) \<longrightarrow>
           map_of (heap w ! a0) ''vae_encoder'' \<noteq> Some (PRef b) \<longrightarrow>
           map_of (heap w ! a0) ''vae_decoder'' \<noteq> Some (PRef b) \<longrightarrow>
           heap w' ! b = heap w ! b))
     (\<lambda>_ _. True) w"
  unfolding infer_stable_diffusion_shapes_from_diffusers_def Let_def py_when_def
  apply (cases "hasattr (text_encoder_2 model)"; cases "list_truthy controlnets")
     apply (simp_all only: if_True if_False)
     apply (simp_all add: wp_simps field_simps split: sum.split)
     apply (auto simp: nth_heap_upd nth_append field_simps)
  done

lemma infer_spatial_post:
  "wp (infer_stable_diffusion_shapes_from_diffusers input_shapes model controlnets)
     (\<lambda>r w'. \<forall>a0 au ae ad. input_shapes = PRef a0 \<longrightarrow>
         map_of (heap w ! a0) ''unet'' = Some (PRef au) \<longrightarrow>
         map_of (heap w ! a0) ''vae_encoder'' = Some (PRef ae) \<longrightarrow>
         map_of (heap w ! a0) ''vae_decoder'' = Some (PRef ad) \<longrightarrow>
         au \<noteq> ae \<longrightarrow> ae \<noteq> ad \<longrightarrow>
         (\<exists>H W sh sw.
            lookup2 w input_shapes ''unet'' ''height'' = Inr H \<and>
            lookup2 w input_shapes ''unet'' ''width'' = Inr W \<and>
            py_floordiv H (vae_scale_factor_of model) = Inr sh \<and>
            py_floordiv W (vae_scale_factor_of model) = Inr sw \<and>
            lookup2 w' input_shapes ''vae_encoder'' ''height'' = Inr H \<and>
            lookup2 w' input_shapes ''vae_encoder'' ''width'' = Inr W \<and>
            lookup2 w' input_shapes ''unet'' ''height'' = Inr sh \<and>
            lookup2 w' input_shapes ''unet'' ''width'' = Inr sw \<and>
            lookup2 w' input_shapes ''vae_decoder'' ''height'' = Inr sh \<and>
            lookup2 w' input_shapes ''vae_decoder'' ''width'' = Inr sw))
     (\<lambda>_ _. True) w"
  unfolding infer_stable_diffusion_shapes_from_diffusers_def Let_def py_when_def
  apply (cases "hasattr (text_encoder_2 model)"; cases "list_truthy controlnets")
     apply (simp_all only: if_True if_False)
     apply (simp_all add: wp_simps field_simps split: sum.split)
     apply (auto simp: lookup2_simp field_simps)
  done

lemma wp_getitem_gen:
  "wp (py_getitem d k) Q E w =
     (case d of
        PRef a \<Rightarrow>
          if a < length (heap w)
          then (case map_of (heap w ! a) k of Some v \<Rightarrow> Q v w | None \<Rightarrow> E (KeyError k) w)
          else E (TypeError ''not subscriptable'') w
      | _ \<Rightarrow> E (TypeError ''not subscriptable'') w)"
  by (auto simp: wp_def py_getitem_def heap_lookup_def split: pyval.splits option.splits)

lemma wp_update_gen:
  "wp (py_update d new) Q E w =
     (case d of
        PRef a \<Rightarrow>
          if a < length (heap w)
          then Q () (w\<lparr>heap := heap_upd a (AList.updates (map fst new) (map snd new)) (heap w)\<rparr>)
          else E (AttributeError (NoAttribute ''update'')) w
      | _ \<Rightarrow> E (AttributeError (NoAttribute ''update'')) w)"
  by (auto simp: wp_def py_update_def heap_lookup_def heap_upd_def split: pyval.splits option.splits)

lemma wp_setitem_gen:
  "wp (py_setitem d k v) Q E w =
     (case d of
        PRef a \<Rightarrow>
          if a < length (heap w)
          then Q () (w\<lparr>heap := heap_upd a (AList.update k v) (heap w)\<rparr>)
          else E (TypeError ''does not support item assignment'') w
      | _ \<Rightarrow> E (TypeError ''does not support item assignment'') w)"
  by (auto simp: wp_def py_setitem_def heap_lookup_def heap_upd_def split: pyval.splits option.splits)

lemmas wp_gen_simps = wp_bind wp_return wp_lift wp_getitem_gen wp_update_gen wp_setitem_gen wp_new_dict

lemma wp_total: "wp m Q (\<lambda>_ _. False) w \<Longrightarrow> \<exists>r w'. m w = (Inr r, w') \<and> Q r w'"
  by (auto simp: wp_def split: prod.splits sum.splits)

lemma vae_scale_factor_of_number:
  "\<exists>n. as_number (vae_scale_factor_of model) = Some n \<and> to_rat n \<noteq> 0"
  by (auto simp: vae_scale_factor_of_def py_pow2_def Let_def)

lemma py_floordiv_by_scale_factor:
  assumes "as_number x \<noteq> None"
  shows "\<exists>r. py_floordiv x (vae_scale_factor_of model) = Inr r"
proof -
  obtain n where n: "as_number (vae_scale_factor_of model) = Some n" "to_rat n \<noteq> 0"
    using vae_scale_factor_of_number by blast
  from assms obtain y where "as_number x = Some y" by auto
  with n show ?thesis
    by (cases y; cases n) (simp_all add: py_floordiv_def)
qed

lemma infer_returns:
  assumes ref: "input_shapes = PRef a0" "a0 < length (heap w)"
    and te: "map_of (heap w ! a0) ''text_encoder'' = Some (PRef ate)" "ate < length (heap w)"
    and un: "map_of (heap w ! a0) ''unet'' = Some (PRef au)" "au < length (heap w)"
    and ve: "map_of (heap w ! a0) ''vae_encoder'' = Some (PRef ae)" "ae < length (heap w)"
    and vd: "map_of (heap w ! a0) ''vae_decoder'' = Some (PRef ad)" "ad < length (heap w)"
    and hw: "map_of (heap w ! au) ''height'' = Some H" "as_number H \<noteq> None"
            "map_of (heap w ! au) ''width'' = Some W" "as_number W \<noteq> None"
    and seq: "infer_sequence_length model = Inr L"
    and cn: "list_truthy controlnets \<Longrightarrow>
               map_of (heap w ! au) ''batch_size'' = Some B \<and> text_encoder model = Has hidden"
  shows "\<exists>w'. infer_stable_diffusion_shapes_from_diffusers input_shapes model controlnets w
           = (Inr input_shapes, w')"
proof -
  obtain sh where sh: "py_floordiv H (vae_scale_factor_of model) = Inr sh"
    using py_floordiv_by_scale_factor [OF hw(2)] by blast
  obtain sw where sw: "py_floordiv W (vae_scale_factor_of model) = Inr sw"
    using py_floordiv_by_scale_factor [OF hw(4)] by blast
  have "wp (infer_stable_diffusion_shapes_from_diffusers input_shapes model controlnets)
          (\<lambda>r _. r = input_shapes) (\<lambda>_ _. False) w"
    unfolding infer_stable_diffusion_shapes_from_diffusers_def Let_def py_when_def
    using cn
    apply (cases "hasattr (text_encoder_2 model)"; cases "list_truthy controlnets")
       apply (simp_all only: if_True if_False)
       apply (simp_all add: wp_gen_simps field_simps ref te un ve vd hw seq sh sw less_SucI)
    done
  from wp_total [OF this] show ?thesis by auto
qed

section \<open>Lemmas about decomposition and the export run\<close>

lemma py_bind_lift_Inl: "py_bind (py_lift (Inl e)) f w = (Inl e, w)"
  by (simp add: py_bind_def py_lift_def)

lemma py_bind_lift_Inr: "py_bind (py_lift (Inr x)) f w = f x w"
  by (simp add: py_bind_def py_lift_def)

lemma py_bind_return: "py_bind (py_return x) f w = f x w"
  by (simp add: py_bind_def py_return_def)

lemma py_bind_raise: "py_bind (py_raise e) f w = (Inl e, w)"
  by (simp add: py_bind_def py_raise_def)

lemma py_bind_truth: "py_bind (py_truth v) f w = f (py_truthy (heap w) v) w"
  by (simp add: py_bind_def py_truth_def)

lemma py_bind_new_dict:
  "py_bind (py_new_dict kvs) f w = f (PRef (length (heap w))) (w\<lparr>heap := heap w @ [kvs]\<rparr>)"
  by (simp add: py_bind_def py_new_dict_def)

lemma py_bind_read_heap:
  "py_bind (py_read_heap g) f w = (case g (heap w) of Inl e \<Rightarrow> (Inl e, w) | Inr x \<Rightarrow> f x w)"
  by (simp add: py_bind_def py_read_heap_def split: sum.splits)

lemma py_bind_disk:
  "py_bind (py_disk g) f w =
     (case g (disk w) of (None, d) \<Rightarrow> f () (w\<lparr>disk := d\<rparr>) | (Some e, d) \<Rightarrow> (Inl e, w\<lparr>disk := d\<rparr>))"
  by (simp add: py_bind_def py_disk_def split: prod.splits option.splits)

lemmas step_simps = py_bind_lift_Inl py_bind_lift_Inr py_bind_return py_bind_raise py_bind_truth
  py_bind_new_dict py_bind_read_heap py_bind_disk

lemma falsy_ids: "ids = PNone \<or> ids = PList [] \<or> ids = PStr [] \<Longrightarrow> \<not> py_truthy h ids"
  by auto

lemma load_without_controlnets:
  assumes ids: "arg_controlnet_model_ids args = PNone \<or> arg_controlnet_model_ids args = PList []
                 \<or> arg_controlnet_model_ids args = PStr []"
  shows "load_models_and_neuron_configs env args w =
     (case infer_library_from_model env (arg_model_name_or_path args) (arg_subfolder args)
             (arg_library_name args) of
        Inl e \<Rightarrow> Inl e
      | Inr lib \<Rightarrow>
          (case arg_model args of
             Some given \<Rightarrow> Inl (UnboundLocalError ''controlnets'')
           | None \<Rightarrow>
               (case get_model_from_task env args lib of
                  Inl e \<Rightarrow> Inl e
                | Inr loaded \<Rightarrow> Inl (UnboundLocalError ''controlnets''))),
      w\<lparr>heap := heap w @ [arg_input_shapes args]\<rparr>)"
  using falsy_ids [OF ids]
  unfolding load_models_and_neuron_configs_def
  by (auto simp: step_simps py_raise_def split: sum.splits option.splits)

lemma export_stage_without_controlnets:
  assumes ids: "arg_controlnet_model_ids args = PNone \<or> arg_controlnet_model_ids args = PList []
                 \<or> arg_controlnet_model_ids args = PStr []"
  shows "\<exists>e w'. \<forall>driver. export_stage (env\<lparr>export_models := driver\<rparr>) args w = (Inl e, w')"
proof (cases "mkdir_parents env (arg_output args) (disk w)")
  case (Pair failed d)
  show ?thesis
  proof (cases failed)
    case (Some e)
    with Pair show ?thesis by (auto simp: export_stage_def py_bind_def py_disk_def)
  next
    case None
    show ?thesis
    proof (cases "map_from_synonym env (arg_task args)")
      case (Inl e)
      with Pair None show ?thesis by (auto simp: export_stage_def py_bind_def py_disk_def py_lift_def)
    next
      case (Inr task_name)
      let ?args = "args\<lparr>arg_task := task_name\<rparr>"
      let ?w = "w\<lparr>disk := d\<rparr>"
      have ids': "arg_controlnet_model_ids ?args = PNone \<or> arg_controlnet_model_ids ?args = PList []
                 \<or> arg_controlnet_model_ids ?args = PStr []"
        using ids by simp
      have "\<exists>e w'. load_models_and_neuron_configs env ?args ?w = (Inl e, w')"
        unfolding load_without_controlnets [OF ids']
        by (simp split: sum.splits option.splits)
      then obtain e w' where load: "load_models_and_neuron_configs env ?args ?w = (Inl e, w')"
        by blast
      have same: "load_models_and_neuron_configs (env\<lparr>export_models := driver\<rparr>) ?args ?w
                    = load_models_and_neuron_configs env ?args ?w" for driver
        unfolding load_without_controlnets [OF ids'] by (simp split: sum.splits option.splits)
      have "export_stage (env\<lparr>export_models := driver\<rparr>) args w = (Inl e, w')" for driver
        using Pair None Inr load same [of driver]
        by (simp add: export_stage_def Let_def py_bind_def py_disk_def py_lift_def)
      then show ?thesis by blast
    qed
  qed
qed

lemma main_export_without_controlnets:
  assumes ids: "arg_controlnet_model_ids args = PNone \<or> arg_controlnet_model_ids args = PList []
                 \<or> arg_controlnet_model_ids args = PStr []"
  shows "\<exists>e w'. \<forall>driver. main_export (env\<lparr>export_models := driver\<rparr>) args w = (Inl e, w')"
proof -
  from export_stage_without_controlnets [OF ids, of env w] obtain e w' where
    "\<forall>driver. export_stage (env\<lparr>export_models := driver\<rparr>) args w = (Inl e, w')" by blast
  then have "\<forall>driver. main_export (env\<lparr>export_models := driver\<rparr>) args w = (Inl e, w')"
    by (simp add: main_export_def py_bind_def)
  then show ?thesis by blast
qed

lemma main_export_validation:
  assumes stage: "export_stage env args0 w = (Inr (args, models, names, outs), w1)"
    and requested: "arg_do_validation args"
  shows "main_export env args0 w =
     (case drop_vae_encoder (arg_task args) outs models names of
        Inl e \<Rightarrow> (Inl e, w1)
      | Inr (outs', models', names') \<Rightarrow>
          (case after_validation (validate_models_outputs env args models' outs' names' (disk w1)) of
             None \<Rightarrow> (Inr (), w1)
           | Some e \<Rightarrow> (Inl e, w1)))"
  using stage requested
  by (auto simp: main_export_def validation_stage_def py_bind_def py_lift_def
      split: sum.splits option.splits)

lemma alist_delete_filter: "AList.delete k xs = filter (\<lambda>kv. fst kv \<noteq> k) xs"
  by (induction xs) (auto simp: AList.delete_eq)

lemma encoder_decoder_names:
  "AList.update DECODER_NAME (os_path_join DECODER_NAME NEURON_FILE_NAME)
     (AList.update ENCODER_NAME (os_path_join ENCODER_NAME NEURON_FILE_NAME) [])
   = [(''encoder'', ''encoder/model.neuron''), (''decoder'', ''decoder/model.neuron'')]"
  by (simp add: ENCODER_NAME_def DECODER_NAME_def NEURON_FILE_NAME_def os_path_join_def)

lemma encoder_decoder_decomposition:
  "(is_neuron_available env \<longrightarrow>
      (\<exists>msg. get_submodels_and_neuron_configs_for_encoder_decoder env model input_shapes task_name
         output_dir dynamic model_name attentions hidden w = (Inl (RuntimeError msg), w))) \<and>
   (\<forall>ms names w'. get_submodels_and_neuron_configs_for_encoder_decoder env model input_shapes task_name
         output_dir dynamic model_name attentions hidden w = (Inr (ms, names), w') \<longrightarrow>
      \<not> is_neuron_available env \<and>
      names = [(''encoder'', ''encoder/model.neuron''), (''decoder'', ''decoder/model.neuron'')] \<and>
      (\<exists>enc dec. ms = [(''encoder'', (Whole model, enc)), (''decoder'', (Whole model, dec))]))"
  unfolding get_submodels_and_neuron_configs_for_encoder_decoder_def
  by (auto simp: step_simps py_raise_def Let_def encoder_decoder_names get_encoder_decoder_models_for_export_def
      py_return_def ENCODER_NAME_def DECODER_NAME_def NEURON_FILE_NAME_def os_path_join_def
      split: sum.splits option.splits prod.splits if_splits)

lemma split_on_nonempty: "split_on c s \<noteq> []"
  by (induction s) (auto split: list.splits)

lemma split_on_single: "split_on c s = [seg] \<Longrightarrow> seg = s"
proof (induction s arbitrary: seg)
  case Nil
  then show ?case by simp
next
  case (Cons x xs)
  then show ?case
    using split_on_nonempty [of c xs]
    by (auto split: if_splits list.splits)
qed

lemma split_on_without_sep: "c \<notin> set s \<Longrightarrow> split_on c s = [s]"
  by (induction s) auto

lemma last_split_on:
  "\<exists>pre. s = pre @ last (split_on c s) \<and> c \<notin> set (last (split_on c s)) \<and> (pre = [] \<or> last pre = c)"
proof (induction s)
  case Nil
  then show ?case by simp
next
  case (Cons x xs)
  then obtain pre where pre: "xs = pre @ last (split_on c xs)" "c \<notin> set (last (split_on c xs))"
    "pre = [] \<or> last pre = c" by blast
  show ?case
  proof (cases "x = c")
    case True
    with pre show ?thesis
      using split_on_nonempty [of c xs]
      by (intro exI [of _ "x # pre"]) auto
  next
    case False
    obtain seg segs where sp: "split_on c xs = seg # segs"
      using split_on_nonempty [of c xs] by (cases "split_on c xs") auto
    show ?thesis
    proof (cases segs)
      case Nil
      with sp have "seg = xs" by (simp add: split_on_single)
      with Nil sp pre False show ?thesis
        by (intro exI [of _ "[]"]) auto
    next
      case (Cons y ys)
      have "pre \<noteq> []"
      proof
        assume "pre = []"
        with pre have "c \<notin> set xs" by simp
        then have "split_on c xs = [xs]" by (rule split_on_without_sep)
        with sp Cons show False by simp
      qed
      with sp pre False Cons show ?thesis
        by (intro exI [of _ "x # pre"]) auto
    qed
  qed
qed

lemma py_bind_Inr:
  "py_bind m f w = (Inr r, w') \<longleftrightarrow> (\<exists>x w1. m w = (Inr x, w1) \<and> f x w1 = (Inr r, w'))"
  by (auto simp: py_bind_def split: prod.splits sum.splits)

lemma py_lift_Inr: "py_lift x w = (Inr r, w') \<longleftrightarrow> x = Inr r \<and> w' = w"
  by (auto simp: py_lift_def)

lemma py_return_Inr: "py_return x w = (Inr r, w') \<longleftrightarrow> r = x \<and> w' = w"
  by (auto simp: py_return_def)

lemma py_raise_Inr: "py_raise e w = (Inr r, w') \<longleftrightarrow> False"
  by (auto simp: py_raise_def)

lemma py_truth_Inr: "py_truth v w = (Inr r, w') \<longleftrightarrow> r = py_truthy (heap w) v \<and> w' = w"
  by (auto simp: py_truth_def)

lemma py_read_heap_Inr: "py_read_heap g w = (Inr r, w') \<longleftrightarrow> g (heap w) = Inr r \<and> w' = w"
  by (auto simp: py_read_heap_def)

lemma py_disk_Inr:
  "py_disk g w = (Inr r, w') \<longleftrightarrow> (\<exists>d. g (disk w) = (None, d) \<and> w' = w\<lparr>disk := d\<rparr>)"
  by (auto simp: py_disk_def split: prod.splits option.splits)

lemmas returns_iff = py_bind_Inr py_lift_Inr py_return_Inr py_raise_Inr py_truth_Inr
  py_read_heap_Inr py_disk_Inr

lemma single_graph:
  assumes nsd: "\<not> py_in_str ''stable-diffusion'' (arg_task args)"
    and ned: "\<not> py_truthy (heap w) (model_is_encoder_decoder model)"
    and run: "get_submodels_and_neuron_configs env model input_shapes library controlnets args w
                = (Inr (ms, names), w')"
    and ident: "ident = (if py_truthy (heap w) (case name_or_path model of None \<Rightarrow> PNone | Some n \<Rightarrow> n)
                         then (case name_or_path model of None \<Rightarrow> PNone | Some n \<Rightarrow> n)
                         else arg_model_name_or_path args)"
  shows "\<exists>key cfg. ms = [(key, (Whole model, cfg))] \<and> names = [(key, ''model.neuron'')] \<and>
           (if py_truthy (heap w) ident
            then (\<exists>path. ident = PStr path \<and> key = last (split_on CHR ''/'' path))
            else key = model_type model)"
  using run nsd ned unfolding get_submodels_and_neuron_configs_def ident Let_def
  by (auto simp: returns_iff split: if_splits pyval.splits)

section \<open>Properties\<close>

text \<open>
  C8, as the code has it. The four tests are \<open>isinstance(_, str)\<close> for the model ids, the
  weight names and the adapter names, and \<open>isinstance(_, float)\<close> for the scales. Whatever
  the four parameters are, normalisation returns (it has no failing branch): a bare string
  among the first three and a bare float among the scales come back as a one-element list,
  and every other value comes back as it is, lists and \<open>None\<close> among them. Three model ids
  with one float scale give a one-element scale list.
\<close>

theorem normalize_lora_params_wraps_str_and_float:
  assumes r: "normalize_lora_params a b c d = (a', b', c', d')"
  shows
    "(\<forall>s. a = PStr s \<longrightarrow> a' = PList [PStr s]) \<and> ((\<forall>s. a \<noteq> PStr s) \<longrightarrow> a' = a) \<and>
     (\<forall>s. b = PStr s \<longrightarrow> b' = PList [PStr s]) \<and> ((\<forall>s. b \<noteq> PStr s) \<longrightarrow> b' = b) \<and>
     (\<forall>s. c = PStr s \<longrightarrow> c' = PList [PStr s]) \<and> ((\<forall>s. c \<noteq> PStr s) \<longrightarrow> c' = c) \<and>
     (\<forall>x. d = PFloat x \<longrightarrow> d' = PList [PFloat x]) \<and> ((\<forall>x. d \<noteq> PFloat x) \<longrightarrow> d' = d) \<and>
     ((\<exists>xs. a = PList xs) \<or> a = PNone \<longrightarrow> a' = a) \<and>
     ((\<exists>xs. b = PList xs) \<or> b = PNone \<longrightarrow> b' = b) \<and>
     ((\<exists>xs. c = PList xs) \<or> c = PNone \<longrightarrow> c' = c) \<and>
     ((\<exists>xs. d = PList xs) \<or> d = PNone \<longrightarrow> d' = d) \<and>
     (\<forall>i j k x. a = PList [PStr i, PStr j, PStr k] \<and> d = PFloat x \<longrightarrow>
        a' = PList [PStr i, PStr j, PStr k] \<and> d' = PList [PFloat x])"
proof -
  from r have a': "a' = (case a of PStr s \<Rightarrow> PList [PStr s] | _ \<Rightarrow> a)"
    and b': "b' = (case b of PStr s \<Rightarrow> PList [PStr s] | _ \<Rightarrow> b)"
    and c': "c' = (case c of PStr s \<Rightarrow> PList [PStr s] | _ \<Rightarrow> c)"
    and d': "d' = (case d of PFloat x \<Rightarrow> PList [PFloat x] | _ \<Rightarrow> d)"
    by (simp_all add: normalize_lora_params_def)
  have ids: "(\<forall>s. a = PStr s \<longrightarrow> a' = PList [PStr s]) \<and> ((\<forall>s. a \<noteq> PStr s) \<longrightarrow> a' = a)"
    unfolding a' by (cases a) simp_all
  have weights: "(\<forall>s. b = PStr s \<longrightarrow> b' = PList [PStr s]) \<and> ((\<forall>s. b \<noteq> PStr s) \<longrightarrow> b' = b)"
    unfolding b' by (cases b) simp_all
  have adapters: "(\<forall>s. c = PStr s \<longrightarrow> c' = PList [PStr s]) \<and> ((\<forall>s. c \<noteq> PStr s) \<longrightarrow> c' = c)"
    unfolding c' by (cases c) simp_all
  have scales: "(\<forall>x. d = PFloat x \<longrightarrow> d' = PList [PFloat x]) \<and> ((\<forall>x. d \<noteq> PFloat x) \<longrightarrow> d' = d)"
    unfolding d' by (cases d) simp_all
  from ids weights adapters scales show ?thesis
    by (intro conjI allI impI) auto
qed

theorem normalize_lora_params_wraps_str_and_float_witness:
  "normalize_lora_params (PList [PStr ''a'', PStr ''b'', PStr ''c'']) (PStr ''w.safetensors'') PNone (PFloat (3 / 4))
     = (PList [PStr ''a'', PStr ''b'', PStr ''c''], PList [PStr ''w.safetensors''], PNone, PList [PFloat (3 / 4)])"
proof -
  obtain a' b' c' d' where r:
    "normalize_lora_params (PList [PStr ''a'', PStr ''b'', PStr ''c'']) (PStr ''w.safetensors'') PNone (PFloat (3 / 4))
       = (a', b', c', d')"
    by (cases "normalize_lora_params (PList [PStr ''a'', PStr ''b'', PStr ''c'']) (PStr ''w.safetensors'') PNone (PFloat (3 / 4))") auto
  from normalize_lora_params_wraps_str_and_float [OF r] show ?thesis
    unfolding r by simp
qed

text \<open>
  C8 as the claim words it fails: a scale given as the int \<open>1\<close> is a bare scalar, it is
  not a \<open>float\<close>, and it comes back as it is, not as a one-element list.
\<close>

theorem int_scale_not_wrapped:
  "normalize_lora_params (PList [PStr ''a'', PStr ''b'', PStr ''c'']) PNone PNone (PInt 1)
     = (PList [PStr ''a'', PStr ''b'', PStr ''c''], PNone, PNone, PInt 1)"
  by (simp add: normalize_lora_params_def)

lemma example_run:
  "infer_stable_diffusion_shapes_from_diffusers (PRef 0) example_pipeline (None :: unit list option) example_world
    = (Inr (PRef 0),
       \<lparr>heap =
        [[(''text_encoder'', PRef 1), (''unet'', PRef 2), (''vae_encoder'', PRef 3),
          (''vae_decoder'', PRef 4)],
         [(''batch_size'', PInt 1), (''sequence_length'', PInt 77)],
         [(''batch_size'', PInt 1), (''sequence_length'', PInt 77), (''num_channels'', PInt 4),
          (''height'', PInt 16), (''width'', PInt 16)],
         [(''batch_size'', PInt 1), (''num_channels'', PInt 3), (''height'', PInt 64),
          (''width'', PInt 64)],
         [(''batch_size'', PInt 1), (''num_channels'', PInt 4), (''height'', PInt 16),
          (''width'', PInt 16)]],
      disk = ()\<rparr>)"
  by code_simp

lemma py_getitem_fst_Inr:
  "fst (py_getitem d k w) = Inr v \<longleftrightarrow>
     (\<exists>a. d = PRef a \<and> a < length (heap w) \<and> map_of (heap w ! a) k = Some v)"
  by (auto simp: py_getitem_def heap_lookup_def split: pyval.splits option.splits)

lemma vae_scale_factor_of_blocks:
  "vae_block_out_channels model \<noteq> [] \<Longrightarrow>
     vae_scale_factor_of model = PInt (2 ^ (length (vae_block_out_channels model) - 1))"
  by (cases "vae_block_out_channels model")
     (simp_all add: vae_scale_factor_of_def py_pow2_def Let_def nat_diff_distrib)

lemma py_floordiv_ints:
  "py_floordiv (PInt h) (PInt (2 ^ k)) = Inr (PInt (h div 2 ^ k))"
  by (simp add: py_floordiv_def)

text \<open>
  C2, as the code has it. The factor is \<open>2 ^ (n - 1)\<close> for a VAE with \<open>n \<ge> 1\<close> blocks: the
  \<open>or 8\<close> never applies, since a power of two is not zero. When the call returns, and the
  unet, vae_encoder and vae_decoder entries are different dictionaries (one shape
  dictionary per submodel), the vae_encoder entry holds the height and width the caller
  gave in the unet entry, and the unet and vae_decoder entries hold these floor-divided by
  the factor.
\<close>

theorem spatial_shapes_scaled_by_vae_factor:
  assumes run: "infer_stable_diffusion_shapes_from_diffusers input_shapes model controlnets w = (Inr r, w')"
    and blocks: "vae_block_out_channels model \<noteq> []"
    and unet: "fst (py_getitem input_shapes ''unet'' w) = Inr (PRef au)"
    and enc: "fst (py_getitem input_shapes ''vae_encoder'' w) = Inr (PRef ae)"
    and dec: "fst (py_getitem input_shapes ''vae_decoder'' w) = Inr (PRef ad)"
    and apart: "au \<noteq> ae" "ae \<noteq> ad"
    and factor: "factor = 2 ^ (length (vae_block_out_channels model) - 1)"
  shows "vae_scale_factor_of model = PInt factor \<and>
     (\<exists>H W sh sw.
        lookup2 w input_shapes ''unet'' ''height'' = Inr H \<and>
        lookup2 w input_shapes ''unet'' ''width'' = Inr W \<and>
        py_floordiv H (PInt factor) = Inr sh \<and>
        py_floordiv W (PInt factor) = Inr sw \<and>
        (\<forall>h. H = PInt h \<longrightarrow> sh = PInt (h div factor)) \<and>
        (\<forall>x. W = PInt x \<longrightarrow> sw = PInt (x div factor)) \<and>
        lookup2 w' input_shapes ''vae_encoder'' ''height'' = Inr H \<and>
        lookup2 w' input_shapes ''vae_encoder'' ''width'' = Inr W \<and>
        lookup2 w' input_shapes ''unet'' ''height'' = Inr sh \<and>
        lookup2 w' input_shapes ''unet'' ''width'' = Inr sw \<and>
        lookup2 w' input_shapes ''vae_decoder'' ''height'' = Inr sh \<and>
        lookup2 w' input_shapes ''vae_decoder'' ''width'' = Inr sw)"
proof -
  have f: "vae_scale_factor_of model = PInt factor"
    using vae_scale_factor_of_blocks [OF blocks] factor by simp
  from unet enc dec obtain a0 where a0: "input_shapes = PRef a0"
    "map_of (heap w ! a0) ''unet'' = Some (PRef au)"
    "map_of (heap w ! a0) ''vae_encoder'' = Some (PRef ae)"
    "map_of (heap w ! a0) ''vae_decoder'' = Some (PRef ad)"
    by (auto simp: py_getitem_fst_Inr)
  from wp_returns [OF run infer_spatial_post] a0 apart
  obtain H W sh sw where *:
    "lookup2 w input_shapes ''unet'' ''height'' = Inr H"
    "lookup2 w input_shapes ''unet'' ''width'' = Inr W"
    "py_floordiv H (vae_scale_factor_of model) = Inr sh"
    "py_floordiv W (vae_scale_factor_of model) = Inr sw"
    "lookup2 w' input_shapes ''vae_encoder'' ''height'' = Inr H"
    "lookup2 w' input_shapes ''vae_encoder'' ''width'' = Inr W"
    "lookup2 w' input_shapes ''unet'' ''height'' = Inr sh"
    "lookup2 w' input_shapes ''unet'' ''width'' = Inr sw"
    "lookup2 w' input_shapes ''vae_decoder'' ''height'' = Inr sh"
    "lookup2 w' input_shapes ''vae_decoder'' ''width'' = Inr sw"
    by blast
  have "\<forall>h. H = PInt h \<longrightarrow> sh = PInt (h div factor)"
    using *(3) f factor py_floordiv_ints by auto
  moreover have "\<forall>x. W = PInt x \<longrightarrow> sw = PInt (x div factor)"
    using *(4) f factor py_floordiv_ints by auto
  ultimately show ?thesis
    using f * by auto
qed

theorem spatial_shapes_scaled_by_vae_factor_witness:
  "vae_scale_factor_of example_pipeline = PInt 4 \<and>
   lookup2 (snd (infer_stable_diffusion_shapes_from_diffusers (PRef 0) example_pipeline
                   (None :: unit list option) example_world)) (PRef 0) ''unet'' ''height''
     = Inr (PInt (64 div 4)) \<and>
   lookup2 (snd (infer_stable_diffusion_shapes_from_diffusers (PRef 0) example_pipeline
                   (None :: unit list option) example_world)) (PRef 0) ''vae_encoder'' ''height''
     = Inr (PInt 64)"
proof -
  have blocks: "vae_block_out_channels example_pipeline \<noteq> []"
    by (simp add: example_pipeline_def)
  have unet: "fst (py_getitem (PRef 0) ''unet'' example_world) = Inr (PRef 2)"
    and enc: "fst (py_getitem (PRef 0) ''vae_encoder'' example_world) = Inr (PRef 3)"
    and dec: "fst (py_getitem (PRef 0) ''vae_decoder'' example_world) = Inr (PRef 4)"
    by (simp_all add: py_getitem_def heap_lookup_def example_world_def)
  have four: "(4::int) = 2 ^ (length (vae_block_out_channels example_pipeline) - 1)"
    by (simp add: example_pipeline_def)
  have H: "lookup2 example_world (PRef 0) ''unet'' ''height'' = Inr (PInt 64)"
    by (simp add: lookup2_def py_bind_def py_getitem_def heap_lookup_def example_world_def)
  from spatial_shapes_scaled_by_vae_factor [OF example_run blocks unet enc dec _ _ four] H
  show ?thesis
    by (auto simp: example_run)
qed

text \<open>
  C2 as stated fails for a VAE with three blocks: the code's factor is 4, not 4 clamped to
  at least 8, so a 64 pixel height gives a unet height of 16, not 64 div 8.
\<close>

theorem vae_factor_not_clamped:
  "vae_scale_factor_of example_pipeline
     \<noteq> PInt (clamped_compression_factor (length (vae_block_out_channels example_pipeline))) \<and>
   lookup2 (snd (infer_stable_diffusion_shapes_from_diffusers (PRef 0) example_pipeline
                   (None :: unit list option) example_world)) (PRef 0) ''vae_encoder'' ''height''
     = Inr (PInt 64) \<and>
   lookup2 (snd (infer_stable_diffusion_shapes_from_diffusers (PRef 0) example_pipeline
                   (None :: unit list option) example_world)) (PRef 0) ''unet'' ''height''
     \<noteq> Inr (PInt (64 div clamped_compression_factor
                              (length (vae_block_out_channels example_pipeline))))"
  unfolding example_run
  by (simp add: lookup2_def py_bind_def py_getitem_def heap_lookup_def example_pipeline_def
      clamped_compression_factor_def vae_scale_factor_of_def py_pow2_def)

text \<open>
  C3. Call the pipeline's sequence length \<open>L\<close> when \<open>tokenizer\<close> is there with maximum
  length \<open>L\<close>, or \<open>tokenizer\<close> is \<open>None\<close> and \<open>tokenizer_2\<close> is there with maximum length
  \<open>L\<close>. Whenever shape inference returns, the pipeline has such an \<open>L\<close>, and the
  text_encoder and the unet entries of \<open>input_shapes\<close> hold it. Shape inference does return,
  giving back \<open>input_shapes\<close> with \<open>L\<close> in both entries, when the pipeline has such an
  \<open>L\<close>, \<open>input_shapes\<close> holds the four component dictionaries, the unet entry has a
  numeric height and width and, with controlnets, a batch size and the text encoder a hidden
  size. With neither tokenizer attached, it raises an \<open>AttributeError\<close> and leaves the
  state as it was.
\<close>

theorem sequence_length_from_tokenizer:
  "(\<forall>L r w'.
      (tokenizer model = Has L \<or> tokenizer model = IsNone \<and> tokenizer_2 model = Has L) \<and>
      infer_stable_diffusion_shapes_from_diffusers input_shapes model controlnets w = (Inr r, w') \<longrightarrow>
      lookup2 w' input_shapes ''text_encoder'' ''sequence_length'' = Inr L \<and>
      lookup2 w' input_shapes ''unet'' ''sequence_length'' = Inr L) \<and>
   (\<forall>r w'.
      infer_stable_diffusion_shapes_from_diffusers input_shapes model controlnets w = (Inr r, w') \<longrightarrow>
      (\<exists>L. tokenizer model = Has L \<or> tokenizer model = IsNone \<and> tokenizer_2 model = Has L)) \<and>
   (\<forall>L a0 ate au ae ad H W B hidden.
      (tokenizer model = Has L \<or> tokenizer model = IsNone \<and> tokenizer_2 model = Has L) \<and>
      input_shapes = PRef a0 \<and> a0 < length (heap w) \<and>
      map_of (heap w ! a0) ''text_encoder'' = Some (PRef ate) \<and> ate < length (heap w) \<and>
      map_of (heap w ! a0) ''unet'' = Some (PRef au) \<and> au < length (heap w) \<and>
      map_of (heap w ! a0) ''vae_encoder'' = Some (PRef ae) \<and> ae < length (heap w) \<and>
      map_of (heap w ! a0) ''vae_decoder'' = Some (PRef ad) \<and> ad < length (heap w) \<and>
      map_of (heap w ! au) ''height'' = Some H \<and> as_number H \<noteq> None \<and>
      map_of (heap w ! au) ''width'' = Some W \<and> as_number W \<noteq> None \<and>
      (list_truthy controlnets \<longrightarrow>
         map_of (heap w ! au) ''batch_size'' = Some B \<and> text_encoder model = Has hidden) \<longrightarrow>
      (\<exists>w'. infer_stable_diffusion_shapes_from_diffusers input_shapes model controlnets w
               = (Inr input_shapes, w') \<and>
            lookup2 w' input_shapes ''text_encoder'' ''sequence_length'' = Inr L \<and>
            lookup2 w' input_shapes ''unet'' ''sequence_length'' = Inr L)) \<and>
   (\<not> is_not_None (tokenizer model) \<and> \<not> is_not_None (tokenizer_2 model) \<longrightarrow>
      (\<exists>reason. infer_stable_diffusion_shapes_from_diffusers input_shapes model controlnets w
                  = (Inl (AttributeError reason), w)))"
proof -
  have length: "infer_sequence_length model = Inr L"
    if "tokenizer model = Has L \<or> tokenizer model = IsNone \<and> tokenizer_2 model = Has L" for L
    using that by (auto simp: infer_sequence_length_def)
  have written:
    "lookup2 w' input_shapes ''text_encoder'' ''sequence_length'' = Inr L \<and>
     lookup2 w' input_shapes ''unet'' ''sequence_length'' = Inr L"
    if tok: "tokenizer model = Has L \<or> tokenizer model = IsNone \<and> tokenizer_2 model = Has L"
      and run: "infer_stable_diffusion_shapes_from_diffusers input_shapes model controlnets w
                  = (Inr r, w')"
    for L r w'
    using wp_returns [OF run infer_sequence_length_post] length [OF tok] by simp
  show ?thesis
  proof (intro conjI allI impI)
    fix L r w'
    assume "(tokenizer model = Has L \<or> tokenizer model = IsNone \<and> tokenizer_2 model = Has L) \<and>
            infer_stable_diffusion_shapes_from_diffusers input_shapes model controlnets w = (Inr r, w')"
    then have both:
      "lookup2 w' input_shapes ''text_encoder'' ''sequence_length'' = Inr L \<and>
       lookup2 w' input_shapes ''unet'' ''sequence_length'' = Inr L"
      using written by blast
    from both show "lookup2 w' input_shapes ''text_encoder'' ''sequence_length'' = Inr L" ..
    from both show "lookup2 w' input_shapes ''unet'' ''sequence_length'' = Inr L" ..
  next
    fix r w'
    assume run: "infer_stable_diffusion_shapes_from_diffusers input_shapes model controlnets w
                   = (Inr r, w')"
    then have "\<exists>L. infer_sequence_length model = Inr L"
      by (cases "infer_sequence_length model")
         (simp_all add: infer_stable_diffusion_shapes_from_diffusers_def step_simps)
    then show "\<exists>L. tokenizer model = Has L \<or> tokenizer model = IsNone \<and> tokenizer_2 model = Has L"
      by (cases "tokenizer model"; cases "tokenizer_2 model")
         (simp_all add: infer_sequence_length_def)
  next
    fix L a0 ate au ae ad H W B hidden
    assume given:
      "(tokenizer model = Has L \<or> tokenizer model = IsNone \<and> tokenizer_2 model = Has L) \<and>
       input_shapes = PRef a0 \<and> a0 < length (heap w) \<and>
       map_of (heap w ! a0) ''text_encoder'' = Some (PRef ate) \<and> ate < length (heap w) \<and>
       map_of (heap w ! a0) ''unet'' = Some (PRef au) \<and> au < length (heap w) \<and>
       map_of (heap w ! a0) ''vae_encoder'' = Some (PRef ae) \<and> ae < length (heap w) \<and>
       map_of (heap w ! a0) ''vae_decoder'' = Some (PRef ad) \<and> ad < length (heap w) \<and>
       map_of (heap w ! au) ''height'' = Some H \<and> as_number H \<noteq> None \<and>
       map_of (heap w ! au) ''width'' = Some W \<and> as_number W \<noteq> None \<and>
       (list_truthy controlnets \<longrightarrow>
          map_of (heap w ! au) ''batch_size'' = Some B \<and> text_encoder model = Has hidden)"
    then have tok: "tokenizer model = Has L \<or> tokenizer model = IsNone \<and> tokenizer_2 model = Has L"
      by (rule conjunct1)
    have "\<exists>w'. infer_stable_diffusion_shapes_from_diffusers input_shapes model controlnets w
                 = (Inr input_shapes, w')"
    proof (rule infer_returns [where L = L and B = B and hidden = hidden])
      from given show "input_shapes = PRef a0" by simp
      from given show "a0 < length (heap w)" by simp
      from given show "map_of (heap w ! a0) ''text_encoder'' = Some (PRef ate)" by simp
      from given show "ate < length (heap w)" by simp
      from given show "map_of (heap w ! a0) ''unet'' = Some (PRef au)" by simp
      from given show "au < length (heap w)" by simp
      from given show "map_of (heap w ! a0) ''vae_encoder'' = Some (PRef ae)" by simp
      from given show "ae < length (heap w)" by simp
      from given show "map_of (heap w ! a0) ''vae_decoder'' = Some (PRef ad)" by simp
      from given show "ad < length (heap w)" by simp
      from given show "map_of (heap w ! au) ''height'' = Some H" by simp
      from given show "as_number H \<noteq> None" by simp
      from given show "map_of (heap w ! au) ''width'' = Some W" by simp
      from given show "as_number W \<noteq> None" by simp
      from length [OF tok] show "infer_sequence_length model = Inr L" .
      assume "list_truthy controlnets"
      with given show "map_of (heap w ! au) ''batch_size'' = Some B \<and> text_encoder model = Has hidden"
        by simp
    qed
    then obtain w' where run:
      "infer_stable_diffusion_shapes_from_diffusers input_shapes model controlnets w
         = (Inr input_shapes, w')"
      by blast
    from written [OF tok run] run
    show "\<exists>w'. infer_stable_diffusion_shapes_from_diffusers input_shapes model controlnets w
                 = (Inr input_shapes, w') \<and>
               lookup2 w' input_shapes ''text_encoder'' ''sequence_length'' = Inr L \<and>
               lookup2 w' input_shapes ''unet'' ''sequence_length'' = Inr L"
      by blast
  next
    assume "\<not> is_not_None (tokenizer model) \<and> \<not> is_not_None (tokenizer_2 model)"
    then show "\<exists>reason. infer_stable_diffusion_shapes_from_diffusers input_shapes model controlnets w
                    = (Inl (AttributeError reason), w)"
      by (cases "tokenizer model"; cases "tokenizer_2 model")
         (simp_all add: infer_stable_diffusion_shapes_from_diffusers_def infer_sequence_length_def
            step_simps)
  qed
qed

lemma example_world_layout:
  "0 < length (heap example_world) \<and>
   map_of (heap example_world ! 0) ''text_encoder'' = Some (PRef 1) \<and> 1 < length (heap example_world) \<and>
   map_of (heap example_world ! 0) ''unet'' = Some (PRef 2) \<and> 2 < length (heap example_world) \<and>
   map_of (heap example_world ! 0) ''vae_encoder'' = Some (PRef 3) \<and> 3 < length (heap example_world) \<and>
   map_of (heap example_world ! 0) ''vae_decoder'' = Some (PRef 4) \<and> 4 < length (heap example_world) \<and>
   map_of (heap example_world ! 2) ''height'' = Some (PInt 64) \<and> as_number (PInt 64) \<noteq> None \<and>
   map_of (heap example_world ! 2) ''width'' = Some (PInt 64) \<and> as_number (PInt 64) \<noteq> None"
  by (simp add: example_world_def)

theorem sequence_length_from_tokenizer_witness:
  "(\<exists>w'. infer_stable_diffusion_shapes_from_diffusers (PRef 0) example_pipeline
            (None :: unit list option) example_world = (Inr (PRef 0), w') \<and>
          lookup2 w' (PRef 0) ''text_encoder'' ''sequence_length'' = Inr (PInt 77) \<and>
          lookup2 w' (PRef 0) ''unet'' ''sequence_length'' = Inr (PInt 77)) \<and>
   (\<exists>w'. infer_stable_diffusion_shapes_from_diffusers (PRef 0)
            (example_pipeline\<lparr>tokenizer := IsNone, tokenizer_2 := Has (PInt 64)\<rparr>)
            (None :: unit list option) example_world = (Inr (PRef 0), w') \<and>
          lookup2 w' (PRef 0) ''text_encoder'' ''sequence_length'' = Inr (PInt 64) \<and>
          lookup2 w' (PRef 0) ''unet'' ''sequence_length'' = Inr (PInt 64)) \<and>
   (\<exists>reason. infer_stable_diffusion_shapes_from_diffusers (PRef 0)
                (example_pipeline\<lparr>tokenizer := IsNone\<rparr>) (None :: unit list option) example_world
              = (Inl (AttributeError reason), example_world))"
proof -
  have first: "tokenizer example_pipeline = Has (PInt 77) \<or>
               tokenizer example_pipeline = IsNone \<and> tokenizer_2 example_pipeline = Has (PInt 77)"
    by (simp add: example_pipeline_def)
  have second:
    "tokenizer (example_pipeline\<lparr>tokenizer := IsNone, tokenizer_2 := Has (PInt 64)\<rparr>) = Has (PInt 64) \<or>
     tokenizer (example_pipeline\<lparr>tokenizer := IsNone, tokenizer_2 := Has (PInt 64)\<rparr>) = IsNone \<and>
     tokenizer_2 (example_pipeline\<lparr>tokenizer := IsNone, tokenizer_2 := Has (PInt 64)\<rparr>) = Has (PInt 64)"
    by simp
  have none: "\<not> is_not_None (tokenizer (example_pipeline\<lparr>tokenizer := IsNone\<rparr>)) \<and>
              \<not> is_not_None (tokenizer_2 (example_pipeline\<lparr>tokenizer := IsNone\<rparr>))"
    by (simp add: example_pipeline_def)
  have plain: "list_truthy (None :: unit list option) \<longrightarrow>
                 map_of (heap example_world ! 2) ''batch_size'' = Some (PInt 1) \<and>
                 text_encoder m = Has (PInt 768)" for m
    by simp
  note run = sequence_length_from_tokenizer [where input_shapes = "PRef 0"
      and controlnets = "None :: unit list option" and w = example_world,
      THEN conjunct2, THEN conjunct2, THEN conjunct1, rule_format,
      where ?a0.0 = 0 and ate = 1 and au = 2 and ae = 3 and ad = 4 and H = "PInt 64"
      and W = "PInt 64" and B = "PInt 1" and hidden = "PInt 768"]
  have "\<exists>w'. infer_stable_diffusion_shapes_from_diffusers (PRef 0) example_pipeline
            (None :: unit list option) example_world = (Inr (PRef 0), w') \<and>
          lookup2 w' (PRef 0) ''text_encoder'' ''sequence_length'' = Inr (PInt 77) \<and>
          lookup2 w' (PRef 0) ''unet'' ''sequence_length'' = Inr (PInt 77)"
    using first example_world_layout plain [of example_pipeline]
    by (intro run) (simp del: list_truthy.simps)
  moreover
  have "\<exists>w'. infer_stable_diffusion_shapes_from_diffusers (PRef 0)
            (example_pipeline\<lparr>tokenizer := IsNone, tokenizer_2 := Has (PInt 64)\<rparr>)
            (None :: unit list option) example_world = (Inr (PRef 0), w') \<and>
          lookup2 w' (PRef 0) ''text_encoder'' ''sequence_length'' = Inr (PInt 64) \<and>
          lookup2 w' (PRef 0) ''unet'' ''sequence_length'' = Inr (PInt 64)"
    using second example_world_layout
      plain [of "example_pipeline\<lparr>tokenizer := IsNone, tokenizer_2 := Has (PInt 64)\<rparr>"]
    by (intro run) (simp del: list_truthy.simps)
  moreover
  from sequence_length_from_tokenizer
         [of "example_pipeline\<lparr>tokenizer := IsNone\<rparr>" "PRef 0" "None :: unit list option"
             example_world] none
  have "\<exists>reason. infer_stable_diffusion_shapes_from_diffusers (PRef 0)
                (example_pipeline\<lparr>tokenizer := IsNone\<rparr>) (None :: unit list option) example_world
              = (Inl (AttributeError reason), example_world)"
    by blast
  ultimately show ?thesis by blast
qed

text \<open>
  C10, as the code has it. \<open>normalize_stable_diffusion_input_shapes\<close> takes the
  \<open>do_classifier_free_guidance\<close> entry out of the caller's dictionary, whatever the outcome,
  and leaves its other entries alone. When \<open>infer_stable_diffusion_shapes_from_diffusers\<close>
  returns, it returns the reference it was given (no copy is made), the caller's
  dictionaries hold the derived values, the disk and no object is lost, and every object
  other than \<open>input_shapes\<close> and its text_encoder, unet, vae_encoder and vae_decoder entries
  is as it was.
\<close>

theorem shape_resolution_writes_in_place:
  fixes build :: "pyval \<Rightarrow> pydict \<Rightarrow> error + 'r"
  shows
  "map_of (snd (normalize_stable_diffusion_input_shapes build_args build args))
     = (map_of args)(''do_classifier_free_guidance'' := None) \<and>
   (\<forall>r w'. infer_stable_diffusion_shapes_from_diffusers input_shapes model controlnets w
              = (Inr r, w') \<longrightarrow>
      r = input_shapes \<and> disk w' = disk w \<and> length (heap w) \<le> length (heap w') \<and>
      lookup2 w' input_shapes ''text_encoder'' ''sequence_length'' = infer_sequence_length model \<and>
      (\<forall>a0 b. input_shapes = PRef a0 \<longrightarrow> b < length (heap w) \<longrightarrow> b \<noteq> a0 \<longrightarrow>
         map_of (heap w ! a0) ''text_encoder'' \<noteq> Some (PRef b) \<longrightarrow>
         map_of (heap w ! a0) ''unet'' \<noteq> Some (PRef b) \<longrightarrow>
         map_of (heap w ! a0) ''vae_encoder'' \<noteq> Some (PRef b) \<longrightarrow>
         map_of (heap w ! a0) ''vae_decoder'' \<noteq> Some (PRef b) \<longrightarrow>
         heap w' ! b = heap w ! b))"
proof (intro conjI allI impI)
  show "map_of (snd (normalize_stable_diffusion_input_shapes build_args build args))
          = (map_of args)(''do_classifier_free_guidance'' := None)"
    by (rule sd_pop_effect)
next
  fix r w'
  assume run: "infer_stable_diffusion_shapes_from_diffusers input_shapes model controlnets w
                 = (Inr r, w')"
  note frame = wp_returns [OF run infer_frame_post]
  from frame show "r = input_shapes" and "disk w' = disk w" and "length (heap w) \<le> length (heap w')"
    by simp_all
  from wp_returns [OF run infer_sequence_length_post]
  show "lookup2 w' input_shapes ''text_encoder'' ''sequence_length'' = infer_sequence_length model"
    by simp
  fix a0 b
  assume "input_shapes = PRef a0" "b < length (heap w)" "b \<noteq> a0"
    "map_of (heap w ! a0) ''text_encoder'' \<noteq> Some (PRef b)"
    "map_of (heap w ! a0) ''unet'' \<noteq> Some (PRef b)"
    "map_of (heap w ! a0) ''vae_encoder'' \<noteq> Some (PRef b)"
    "map_of (heap w ! a0) ''vae_decoder'' \<noteq> Some (PRef b)"
  with frame show "heap w' ! b = heap w ! b" by blast
qed

lemma example_run_with_bystander:
  "infer_stable_diffusion_shapes_from_diffusers (PRef 0) example_pipeline (None :: unit list option)
     (example_world\<lparr>heap := heap example_world @ [[(''batch_size'', PInt 2)]]\<rparr>)
    = (Inr (PRef 0),
       \<lparr>heap =
        [[(''text_encoder'', PRef 1), (''unet'', PRef 2), (''vae_encoder'', PRef 3),
          (''vae_decoder'', PRef 4)],
         [(''batch_size'', PInt 1), (''sequence_length'', PInt 77)],
         [(''batch_size'', PInt 1), (''sequence_length'', PInt 77), (''num_channels'', PInt 4),
          (''height'', PInt 16), (''width'', PInt 16)],
         [(''batch_size'', PInt 1), (''num_channels'', PInt 3), (''height'', PInt 64),
          (''width'', PInt 64)],
         [(''batch_size'', PInt 1), (''num_channels'', PInt 4), (''height'', PInt 16),
          (''width'', PInt 16)],
         [(''batch_size'', PInt 2)]],
      disk = ()\<rparr>)"
  by code_simp

theorem shape_resolution_writes_in_place_witness:
  "map_of (snd (normalize_stable_diffusion_input_shapes example_build_args example_build
                  example_cli_args)) ''do_classifier_free_guidance'' = None \<and>
   map_of (snd (normalize_stable_diffusion_input_shapes example_build_args example_build
                  example_cli_args)) ''height'' = Some (PInt 64) \<and>
   fst (infer_stable_diffusion_shapes_from_diffusers (PRef 0) example_pipeline
          (None :: unit list option)
          (example_world\<lparr>heap := heap example_world @ [[(''batch_size'', PInt 2)]]\<rparr>))
     = Inr (PRef 0) \<and>
   heap (snd (infer_stable_diffusion_shapes_from_diffusers (PRef 0) example_pipeline
          (None :: unit list option)
          (example_world\<lparr>heap := heap example_world @ [[(''batch_size'', PInt 2)]]\<rparr>))) ! 5
     = [(''batch_size'', PInt 2)]"
proof -
  let ?w = "example_world\<lparr>heap := heap example_world @ [[(''batch_size'', PInt 2)]]\<rparr>"
  have pre: "(5::nat) < length (heap ?w)" "(5::nat) \<noteq> 0"
    "map_of (heap ?w ! 0) ''text_encoder'' \<noteq> Some (PRef 5)"
    "map_of (heap ?w ! 0) ''unet'' \<noteq> Some (PRef 5)"
    "map_of (heap ?w ! 0) ''vae_encoder'' \<noteq> Some (PRef 5)"
    "map_of (heap ?w ! 0) ''vae_decoder'' \<noteq> Some (PRef 5)"
    "heap ?w ! 5 = [(''batch_size'', PInt 2)]"
    by (simp_all add: example_world_def)
  from shape_resolution_writes_in_place
         [of example_build_args example_build example_cli_args "PRef 0" example_pipeline
             "None :: unit list option" ?w]
  have pop: "map_of (snd (normalize_stable_diffusion_input_shapes example_build_args example_build
                  example_cli_args)) = (map_of example_cli_args)(''do_classifier_free_guidance'' := None)"
    and same: "heap (snd (infer_stable_diffusion_shapes_from_diffusers (PRef 0) example_pipeline
          (None :: unit list option) ?w)) ! 5 = heap ?w ! 5"
    and ret: "fst (infer_stable_diffusion_shapes_from_diffusers (PRef 0) example_pipeline
          (None :: unit list option) ?w) = Inr (PRef 0)"
    using pre example_run_with_bystander by auto
  from pop same ret pre(7) show ?thesis
    by (simp add: example_cli_args_def)
qed

text \<open>
  C10 as stated fails: after the call the caller's argument dictionary has lost an entry,
  and shape inference has changed the caller's dictionaries and handed back the very
  reference it received.
\<close>

theorem shape_resolution_mutates_arguments:
  "snd (normalize_stable_diffusion_input_shapes example_build_args example_build example_cli_args)
     \<noteq> example_cli_args \<and>
   fst (infer_stable_diffusion_shapes_from_diffusers (PRef 0) example_pipeline
          (None :: unit list option) example_world) = Inr (PRef 0) \<and>
   heap (snd (infer_stable_diffusion_shapes_from_diffusers (PRef 0) example_pipeline
          (None :: unit list option) example_world)) \<noteq> heap example_world"
  unfolding example_run
  by (simp add: normalize_stable_diffusion_input_shapes_def example_cli_args_def
      example_build_args_def example_build_def removed_axes_def example_world_def Let_def dict_get_def)

text \<open>
  C7, as the code has it. For sentence transformers, with a \<open>model\<close> entry that is a string
  or absent, and for stable diffusion, with the \<open>do_classifier_free_guidance\<close> entry
  present: when a mandatory dimension is not among the keys, normalisation raises the
  \<open>AttributeError\<close> whose message gives the mandatory names and exactly the missing ones.
  When sentence-transformers normalisation returns, every entry of the result is the
  caller's own: no dimension is filled in with a default.
\<close>

theorem missing_axes_named:
  fixes build :: "pyval \<Rightarrow> pydict \<Rightarrow> error + 'r"
  shows
  "((map_of args ''model'' = Some (PStr name) \<or> (map_of args ''model'' = None \<and> name = [])) \<and>
    D = (if py_in_str ''clip'' (map lower_char name)
         then [''text_batch_size'', ''image_batch_size'', ''sequence_length'',
               ''num_channels'', ''width'', ''height'']
         else [''batch_size'', ''sequence_length'']) \<and>
    \<not> set D \<subseteq> fst ` set args \<longrightarrow>
      (\<exists>missing. normalize_sentence_transformers_input_shapes args
                   = Inl (AttributeError (ShapesNotGiven D missing)) \<and>
                 set missing = set D - fst ` set args \<and> missing \<noteq> [])) \<and>
   (\<forall>shapes k. normalize_sentence_transformers_input_shapes args = Inr shapes \<longrightarrow>
        map_of shapes k \<noteq> None \<longrightarrow> map_of shapes k = map_of args k) \<and>
   (map_of sd_args ''do_classifier_free_guidance'' = Some flag \<and>
    D' = filter (\<lambda>n. n \<notin> set removed_axes) (remdups build_args) \<and>
    \<not> set D' \<subseteq> fst ` set sd_args \<longrightarrow>
      (\<exists>missing. fst (normalize_stable_diffusion_input_shapes build_args build sd_args)
                   = Inl (AttributeError (ShapesNotGiven D' missing)) \<and>
                 set missing = set D' - fst ` set sd_args \<and> missing \<noteq> []))"
proof (intro conjI allI impI)
  assume "(map_of args ''model'' = Some (PStr name) \<or> (map_of args ''model'' = None \<and> name = [])) \<and>
    D = (if py_in_str ''clip'' (map lower_char name)
         then [''text_batch_size'', ''image_batch_size'', ''sequence_length'',
               ''num_channels'', ''width'', ''height'']
         else [''batch_size'', ''sequence_length'']) \<and>
    \<not> set D \<subseteq> fst ` set args"
  then show "\<exists>missing. normalize_sentence_transformers_input_shapes args
                   = Inl (AttributeError (ShapesNotGiven D missing)) \<and>
                 set missing = set D - fst ` set args \<and> missing \<noteq> []"
    using st_missing [of args name D] by blast
next
  fix shapes k
  assume "normalize_sentence_transformers_input_shapes args = Inr shapes"
    and "map_of shapes k \<noteq> None"
  then obtain axes where "dict_items_for args axes = Inr shapes"
    unfolding normalize_sentence_transformers_input_shapes_def Let_def
    by (auto simp del: dict_items_for.simps split: sum.splits if_splits)
  from dict_items_for_lookup [OF this, of k] \<open>map_of shapes k \<noteq> None\<close>
  show "map_of shapes k = map_of args k"
    by (simp split: if_splits)
next
  assume "map_of sd_args ''do_classifier_free_guidance'' = Some flag \<and>
    D' = filter (\<lambda>n. n \<notin> set removed_axes) (remdups build_args) \<and>
    \<not> set D' \<subseteq> fst ` set sd_args"
  then show "\<exists>missing. fst (normalize_stable_diffusion_input_shapes build_args build sd_args)
                   = Inl (AttributeError (ShapesNotGiven D' missing)) \<and>
                 set missing = set D' - fst ` set sd_args \<and> missing \<noteq> []"
    using sd_missing [of sd_args flag D' build_args build] by blast
qed

theorem missing_axes_named_witness:
  "(\<exists>missing. normalize_sentence_transformers_input_shapes
                [(''model'', PStr ''openai/CLIP-vit-base''), (''sequence_length'', PInt 77),
                 (''width'', PInt 224), (''height'', PInt 224)]
              = Inl (AttributeError (ShapesNotGiven
                  [''text_batch_size'', ''image_batch_size'', ''sequence_length'',
                   ''num_channels'', ''width'', ''height''] missing)) \<and>
              set missing = {''text_batch_size'', ''image_batch_size'', ''num_channels''}) \<and>
   normalize_sentence_transformers_input_shapes
     [(''model'', PStr ''bert''), (''batch_size'', PInt 1), (''sequence_length'', PInt 128)]
     = Inr [(''batch_size'', PInt 1), (''sequence_length'', PInt 128)] \<and>
   (\<exists>missing. fst (normalize_stable_diffusion_input_shapes example_build_args example_build
                     (AList.delete ''width'' example_cli_args))
              = Inl (AttributeError (ShapesNotGiven [''batch_size'', ''height'', ''width''] missing)) \<and>
              set missing = {''width''})"
proof -
  let ?clip = "[(''model'', PStr ''openai/CLIP-vit-base''), (''sequence_length'', PInt 77),
                 (''width'', PInt 224), (''height'', PInt 224)]"
  let ?bert = "[(''model'', PStr ''bert''), (''batch_size'', PInt 1), (''sequence_length'', PInt 128)]"
  let ?sd = "AList.delete ''width'' example_cli_args"
  let ?D = "[''text_batch_size'', ''image_batch_size'', ''sequence_length'',
             ''num_channels'', ''width'', ''height'']"
  have clip: "py_in_str ''clip'' (map lower_char ''openai/CLIP-vit-base'')"
    by code_simp
  have D': "[''batch_size'', ''height'', ''width'']
              = filter (\<lambda>n. n \<notin> set removed_axes) (remdups example_build_args)"
    by (simp add: removed_axes_def example_build_args_def)
  have bert: "normalize_sentence_transformers_input_shapes ?bert
     = Inr [(''batch_size'', PInt 1), (''sequence_length'', PInt 128)]"
    by code_simp
  have sdflag: "map_of ?sd ''do_classifier_free_guidance'' = Some (PBool True)"
    by (simp add: example_cli_args_def)
  have sdkeys: "fst ` set ?sd = {''model'', ''do_classifier_free_guidance'', ''batch_size'', ''height''}"
    by (auto simp: example_cli_args_def)
  note inst = missing_axes_named
      [of ?clip "''openai/CLIP-vit-base''" ?D ?sd "PBool True"
          "[''batch_size'', ''height'', ''width'']" example_build_args example_build]
  have D: "?D = (if py_in_str ''clip'' (map lower_char ''openai/CLIP-vit-base'')
                 then [''text_batch_size'', ''image_batch_size'', ''sequence_length'',
                       ''num_channels'', ''width'', ''height'']
                 else [''batch_size'', ''sequence_length''])"
    by (simp only: clip if_True)
  have named: "map_of ?clip ''model'' = Some (PStr ''openai/CLIP-vit-base'')
                 \<or> (map_of ?clip ''model'' = None \<and> ''openai/CLIP-vit-base'' = [])"
    by simp
  have lacking: "\<not> set ?D \<subseteq> fst ` set ?clip"
    by simp
  from inst [THEN conjunct1, rule_format, OF conjI [OF named conjI [OF D lacking]]]
  have "\<exists>missing. normalize_sentence_transformers_input_shapes ?clip
                   = Inl (AttributeError (ShapesNotGiven ?D missing)) \<and>
                 set missing = set ?D - fst ` set ?clip \<and> missing \<noteq> []" .
  moreover have "set ?D - fst ` set ?clip = {''text_batch_size'', ''image_batch_size'', ''num_channels''}"
    by auto
  moreover have sdlacking: "\<not> set [''batch_size'', ''height'', ''width''] \<subseteq> fst ` set ?sd"
    unfolding sdkeys by simp
  from inst [THEN conjunct2, THEN conjunct2, rule_format, OF conjI [OF sdflag conjI [OF D' sdlacking]]]
  have "\<exists>missing. fst (normalize_stable_diffusion_input_shapes example_build_args example_build ?sd)
                   = Inl (AttributeError (ShapesNotGiven [''batch_size'', ''height'', ''width''] missing)) \<and>
                 set missing = set [''batch_size'', ''height'', ''width''] - fst ` set ?sd \<and> missing \<noteq> []" .
  moreover have "set [''batch_size'', ''height'', ''width''] - fst ` set ?sd = {''width''}"
    unfolding sdkeys by auto
  ultimately show ?thesis
    using bert by auto
qed

text \<open>
  C7 as stated fails where the error comes before the check of the dimensions: a
  stable-diffusion mapping without the \<open>do_classifier_free_guidance\<close> entry raises a
  \<open>KeyError\<close> for that key although height and width are missing, and a
  sentence-transformers mapping whose \<open>model\<close> entry is \<open>None\<close> raises for \<open>lower\<close>
  although \<open>sequence_length\<close> is missing.
\<close>

theorem missing_axes_not_named:
  "normalize_stable_diffusion_input_shapes example_build_args example_build [(''batch_size'', PInt 1)]
     = (Inl (KeyError ''do_classifier_free_guidance''), [(''batch_size'', PInt 1)]) \<and>
   normalize_sentence_transformers_input_shapes [(''model'', PNone), (''batch_size'', PInt 1)]
     = Inl (AttributeError (NoAttribute ''lower''))"
  by (simp add: normalize_stable_diffusion_input_shapes_def
      normalize_sentence_transformers_input_shapes_def py_lower_def dict_get_def)

text \<open>
  C1. When \<open>controlnet_model_ids\<close> is \<open>None\<close> or empty, the local \<open>controlnets\<close> is never
  bound: \<open>load_models_and_neuron_configs\<close> raises in every case, with
  \<open>UnboundLocalError\<close> as soon as library inference and model loading have returned (a
  model that is passed in is not loaded), and \<open>main_export\<close> raises the same error whatever
  the export driver is, so the driver is never reached.
\<close>

theorem load_without_controlnets_raises:
  assumes "arg_controlnet_model_ids args = PNone \<or> arg_controlnet_model_ids args = PList []
             \<or> arg_controlnet_model_ids args = PStr []"
  shows "(\<exists>e w'. load_models_and_neuron_configs env args w = (Inl e, w')) \<and>
         (\<forall>lib. infer_library_from_model env (arg_model_name_or_path args) (arg_subfolder args)
                  (arg_library_name args) = Inr lib \<longrightarrow>
                (arg_model args \<noteq> None \<or> (\<exists>m. get_model_from_task env args lib = Inr m)) \<longrightarrow>
                fst (load_models_and_neuron_configs env args w)
                  = Inl (UnboundLocalError ''controlnets'')) \<and>
         (\<exists>e w'. \<forall>driver. main_export (env\<lparr>export_models := driver\<rparr>) args w = (Inl e, w'))"
proof (intro conjI allI impI)
  show "\<exists>e w'. load_models_and_neuron_configs env args w = (Inl e, w')"
    unfolding load_without_controlnets [OF assms]
    by (simp split: sum.splits option.splits)
next
  fix lib
  assume "infer_library_from_model env (arg_model_name_or_path args) (arg_subfolder args)
            (arg_library_name args) = Inr lib"
    and "arg_model args \<noteq> None \<or> (\<exists>m. get_model_from_task env args lib = Inr m)"
  then show "fst (load_models_and_neuron_configs env args w) = Inl (UnboundLocalError ''controlnets'')"
    unfolding load_without_controlnets [OF assms]
    by (auto split: sum.splits option.splits)
next
  show "\<exists>e w'. \<forall>driver. main_export (env\<lparr>export_models := driver\<rparr>) args w = (Inl e, w')"
    by (rule main_export_without_controlnets [OF assms])
qed

theorem load_without_controlnets_raises_witness:
  "fst (load_models_and_neuron_configs (example_env False None) example_args example_world)
     = Inl (UnboundLocalError ''controlnets'') \<and>
   (\<exists>e w'. \<forall>driver.
      main_export (example_env False None\<lparr>export_models := driver\<rparr>) example_args example_world
        = (Inl e, w'))"
proof -
  have ids: "arg_controlnet_model_ids example_args = PNone \<or>
             arg_controlnet_model_ids example_args = PList [] \<or>
             arg_controlnet_model_ids example_args = PStr []"
    by (simp add: example_args_def)
  have lib: "infer_library_from_model (example_env False None) (arg_model_name_or_path example_args)
               (arg_subfolder example_args) (arg_library_name example_args) = Inr (PStr ''transformers'')"
    by (simp add: example_env_def)
  have loaded: "arg_model example_args \<noteq> None \<or>
                (\<exists>m. get_model_from_task (example_env False None) example_args (PStr ''transformers'')
                       = Inr m)"
    by (simp add: example_env_def)
  from load_without_controlnets_raises [OF ids, of "example_env False None" example_world] lib loaded
  show ?thesis by blast
qed

text \<open>
  C4. With validation requested and the export driver done, an error raised by validation
  leaves \<open>main_export\<close> only when it is a \<open>ShapeError\<close> (or no \<open>Exception\<close> at all, such
  as a keyboard interrupt). An \<open>AtolError\<close>, an \<open>OutputMatchError\<close> and any other
  \<open>Exception\<close> are caught: \<open>main_export\<close> returns. Either way the run ends in the state
  the export driver left, so what it wrote is still there.
\<close>

theorem validation_error_policy:
  assumes "export_stage env args0 w = (Inr (args, models, names, outs), w1)"
    and "arg_do_validation args"
    and "drop_vae_encoder (arg_task args) outs models names = Inr (outs', models', names')"
    and "validate_models_outputs env args models' outs' names' (disk w1) = Some e"
  shows "((\<exists>msg. e = ShapeError msg) \<longrightarrow> main_export env args0 w = (Inl e, w1)) \<and>
         ((\<exists>msg. e = AtolError msg \<or> e = OutputMatchError msg) \<longrightarrow>
            main_export env args0 w = (Inr (), w1)) \<and>
         (is_Exception e \<and> (\<forall>msg. e \<noteq> ShapeError msg) \<longrightarrow> main_export env args0 w = (Inr (), w1)) \<and>
         (\<not> is_Exception e \<longrightarrow> main_export env args0 w = (Inl e, w1))"
  unfolding main_export_validation [OF assms(1,2)] assms(3)
  using assms(4) by (cases e) auto

lemma example_sd_stage:
  "fst (export_stage (example_env False verdict) example_sd_args example_world)
    = Inr (example_sd_args,
           [(''text_encoder'', Part (), ()), (''unet'', Part (), ()),
            (''vae_encoder'', Part (), ()), (''vae_decoder'', Part (), ()),
            (''controlnet_0'', Part (), ())],
           [(''unet'', ''unet/model.neuron''), (''vae_encoder'', ''vae_encoder/model.neuron''),
            (''vae_decoder'', ''vae_decoder/model.neuron''),
            (''text_encoder'', ''text_encoder/model.neuron''),
            (''controlnet_0'', ''controlnet_0/model.neuron'')],
           [(''text_encoder'', [''sample'']), (''unet'', [''sample'']),
            (''vae_encoder'', [''sample'']), (''vae_decoder'', [''sample'']),
            (''controlnet_0'', [''sample''])])"
  by code_simp

lemma example_sd_dropped:
  "drop_vae_encoder (arg_task example_sd_args)
      [(''text_encoder'', [''sample'']), (''unet'', [''sample'']),
       (''vae_encoder'', [''sample'']), (''vae_decoder'', [''sample'']),
       (''controlnet_0'', [''sample''])]
      [(''text_encoder'', Part (), ()), (''unet'', Part (), ()),
       (''vae_encoder'', Part (), ()), (''vae_decoder'', Part (), ()),
       (''controlnet_0'', Part (), ())]
      [(''unet'', ''unet/model.neuron''), (''vae_encoder'', ''vae_encoder/model.neuron''),
       (''vae_decoder'', ''vae_decoder/model.neuron''),
       (''text_encoder'', ''text_encoder/model.neuron''),
       (''controlnet_0'', ''controlnet_0/model.neuron'')]
    = Inr ([(''text_encoder'', [''sample'']), (''unet'', [''sample'']),
            (''vae_decoder'', [''sample'']), (''controlnet_0'', [''sample''])],
           [(''text_encoder'', Part (), ()), (''unet'', Part (), ()),
            (''vae_decoder'', Part (), ()), (''controlnet_0'', Part (), ())],
           [(''unet'', ''unet/model.neuron''), (''vae_decoder'', ''vae_decoder/model.neuron''),
            (''text_encoder'', ''text_encoder/model.neuron''),
            (''controlnet_0'', ''controlnet_0/model.neuron'')])"
  by code_simp

lemma example_sd_validation: "arg_do_validation example_sd_args"
  by (simp add: example_sd_args_def example_args_def)

theorem validation_error_policy_witness:
  "fst (main_export (example_env False (Some (ShapeError ''logits''))) example_sd_args example_world)
     = Inl (ShapeError ''logits'') \<and>
   fst (main_export (example_env False (Some (AtolError ''logits''))) example_sd_args example_world)
     = Inr () \<and>
   fst (main_export (example_env False (Some (OutputMatchError ''logits''))) example_sd_args example_world)
     = Inr () \<and>
   fst (main_export (example_env False (Some (OtherException ''runtime''))) example_sd_args example_world)
     = Inr () \<and>
   fst (main_export (example_env False (Some (NonException ''interrupt''))) example_sd_args example_world)
     = Inl (NonException ''interrupt'')"
proof -
  have run: "((\<exists>msg. e = ShapeError msg) \<or> \<not> is_Exception e)
                \<and> fst (main_export (example_env False (Some e)) example_sd_args example_world) = Inl e
             \<or> (\<forall>msg. e \<noteq> ShapeError msg) \<and> is_Exception e
                \<and> fst (main_export (example_env False (Some e)) example_sd_args example_world) = Inr ()"
    for e
  proof -
    obtain w1 where stage:
      "export_stage (example_env False (Some e)) example_sd_args example_world
         = (Inr (example_sd_args,
                 [(''text_encoder'', Part (), ()), (''unet'', Part (), ()),
                  (''vae_encoder'', Part (), ()), (''vae_decoder'', Part (), ()),
                  (''controlnet_0'', Part (), ())],
                 [(''unet'', ''unet/model.neuron''), (''vae_encoder'', ''vae_encoder/model.neuron''),
                  (''vae_decoder'', ''vae_decoder/model.neuron''),
                  (''text_encoder'', ''text_encoder/model.neuron''),
                  (''controlnet_0'', ''controlnet_0/model.neuron'')],
                 [(''text_encoder'', [''sample'']), (''unet'', [''sample'']),
                  (''vae_encoder'', [''sample'']), (''vae_decoder'', [''sample'']),
                  (''controlnet_0'', [''sample''])]), w1)"
      using example_sd_stage [of "Some e"]
      by (cases "export_stage (example_env False (Some e)) example_sd_args example_world") simp
    have raised: "validate_models_outputs (example_env False (Some e)) example_sd_args
                    [(''text_encoder'', Part (), ()), (''unet'', Part (), ()),
                     (''vae_decoder'', Part (), ()), (''controlnet_0'', Part (), ())]
                    [(''text_encoder'', [''sample'']), (''unet'', [''sample'']),
                     (''vae_decoder'', [''sample'']), (''controlnet_0'', [''sample''])]
                    [(''unet'', ''unet/model.neuron''), (''vae_decoder'', ''vae_decoder/model.neuron''),
                     (''text_encoder'', ''text_encoder/model.neuron''),
                     (''controlnet_0'', ''controlnet_0/model.neuron'')] (disk w1) = Some e"
      by (simp add: example_env_def)
    note policy = validation_error_policy [OF stage example_sd_validation example_sd_dropped raised]
    show ?thesis
    proof (cases "(\<exists>msg. e = ShapeError msg) \<or> \<not> is_Exception e")
      case True
      with policy show ?thesis by auto
    next
      case False
      with policy show ?thesis by auto
    qed
  qed
  from run [of "ShapeError ''logits''"] run [of "AtolError ''logits''"]
       run [of "OutputMatchError ''logits''"] run [of "OtherException ''runtime''"]
       run [of "NonException ''interrupt''"]
  show ?thesis by simp
qed
text \<open>
  C9. With validation requested on a stable-diffusion task and the export driver done:
  when the compiled outputs have a \<open>vae_encoder\<close> entry, validation is run on the compiled
  outputs, the submodels and the artifact names with exactly that entry taken out, every
  other entry in place and in order; when they have none, the first \<open>pop\<close> raises
  \<open>KeyError\<close> and validation is not run.
\<close>

theorem vae_encoder_dropped_before_validation:
  assumes "export_stage env args0 w = (Inr (args, models, names, outs), w1)"
    and "arg_do_validation args"
    and "py_in_str ''stable-diffusion'' (arg_task args)"
  shows "(map_of outs ''vae_encoder'' = None \<longrightarrow>
            main_export env args0 w = (Inl (KeyError ''vae_encoder''), w1)) \<and>
         (map_of outs ''vae_encoder'' \<noteq> None \<longrightarrow>
            main_export env args0 w =
              (case after_validation
                      (validate_models_outputs env args
                         (filter (\<lambda>entry. fst entry \<noteq> ''vae_encoder'') models)
                         (filter (\<lambda>entry. fst entry \<noteq> ''vae_encoder'') outs)
                         (filter (\<lambda>entry. fst entry \<noteq> ''vae_encoder'') names) (disk w1)) of
                 None \<Rightarrow> (Inr (), w1)
               | Some e \<Rightarrow> (Inl e, w1)))"
  unfolding main_export_validation [OF assms(1,2)]
  using assms(3) by (auto simp: drop_vae_encoder_def alist_delete_filter)

lemma example_sd_stage_checked:
  "fst (export_stage ((example_env False None)\<lparr>validate_models_outputs := check\<rparr>)
          example_sd_args example_world)
    = Inr (example_sd_args,
           [(''text_encoder'', Part (), ()), (''unet'', Part (), ()),
            (''vae_encoder'', Part (), ()), (''vae_decoder'', Part (), ()),
            (''controlnet_0'', Part (), ())],
           [(''unet'', ''unet/model.neuron''), (''vae_encoder'', ''vae_encoder/model.neuron''),
            (''vae_decoder'', ''vae_decoder/model.neuron''),
            (''text_encoder'', ''text_encoder/model.neuron''),
            (''controlnet_0'', ''controlnet_0/model.neuron'')],
           [(''text_encoder'', [''sample'']), (''unet'', [''sample'']),
            (''vae_encoder'', [''sample'']), (''vae_decoder'', [''sample'']),
            (''controlnet_0'', [''sample''])])"
  by code_simp

lemma example_sd_task: "py_in_str ''stable-diffusion'' (arg_task example_sd_args)"
  by code_simp

theorem vae_encoder_dropped_before_validation_witness:
  "fst (main_export
          ((example_env False None)
             \<lparr>validate_models_outputs :=
                (\<lambda>args ms outs names d.
                   if map fst ms = [''text_encoder'', ''unet'', ''vae_decoder'', ''controlnet_0''] \<and>
                      map fst outs = [''text_encoder'', ''unet'', ''vae_decoder'', ''controlnet_0''] \<and>
                      map fst names = [''unet'', ''vae_decoder'', ''text_encoder'', ''controlnet_0'']
                   then None else Some (ShapeError ''vae_encoder''))\<rparr>)
          example_sd_args example_world) = Inr ()"
proof -
  let ?check = "\<lambda>(args :: unit export_args) (ms :: (string \<times> unit subgraph \<times> unit) list)
                  (outs :: (string \<times> string list) list) (names :: (string \<times> string) list) (d :: unit).
                   if map fst ms = [''text_encoder'', ''unet'', ''vae_decoder'', ''controlnet_0''] \<and>
                      map fst outs = [''text_encoder'', ''unet'', ''vae_decoder'', ''controlnet_0''] \<and>
                      map fst names = [''unet'', ''vae_decoder'', ''text_encoder'', ''controlnet_0'']
                   then None else Some (ShapeError ''vae_encoder'')"
  let ?env = "(example_env False None)\<lparr>validate_models_outputs := ?check\<rparr>"
  obtain w1 where stage:
    "export_stage ?env example_sd_args example_world
       = (Inr (example_sd_args,
               [(''text_encoder'', Part (), ()), (''unet'', Part (), ()),
                (''vae_encoder'', Part (), ()), (''vae_decoder'', Part (), ()),
                (''controlnet_0'', Part (), ())],
               [(''unet'', ''unet/model.neuron''), (''vae_encoder'', ''vae_encoder/model.neuron''),
                (''vae_decoder'', ''vae_decoder/model.neuron''),
                (''text_encoder'', ''text_encoder/model.neuron''),
                (''controlnet_0'', ''controlnet_0/model.neuron'')],
               [(''text_encoder'', [''sample'']), (''unet'', [''sample'']),
                (''vae_encoder'', [''sample'']), (''vae_decoder'', [''sample'']),
                (''controlnet_0'', [''sample''])]), w1)"
    using example_sd_stage_checked [of ?check]
    by (cases "export_stage ?env example_sd_args example_world") simp
  from vae_encoder_dropped_before_validation [OF stage example_sd_validation example_sd_task]
  show ?thesis
    by simp
qed

lemma encoder_decoder_dispatch:
  assumes "\<not> py_in_str ''stable-diffusion'' (arg_task args)"
    and "py_truthy (heap w) (model_is_encoder_decoder model)"
  shows "get_submodels_and_neuron_configs env model input_shapes library controlnets args w
           = get_submodels_and_neuron_configs_for_encoder_decoder env model input_shapes (arg_task args)
               (arg_output args) (arg_dynamic_batch_size args) (arg_model_name_or_path args)
               (arg_output_attentions args) (arg_output_hidden_states args) w"
  using assms by (simp add: get_submodels_and_neuron_configs_def Let_def py_bind_truth)

lemma encoder_decoder_returns:
  assumes "\<not> is_neuron_available env"
    and "encoder_config env model task_name dynamic input_shapes (heap w) attentions hidden = Inr enc"
    and "decoder_config env model task_name dynamic input_shapes (heap w) attentions hidden = Inr dec"
    and "maybe_save_preprocessors env model_name output_dir [] (disk w) = (None, d)"
  shows "get_submodels_and_neuron_configs_for_encoder_decoder env model input_shapes task_name
           output_dir dynamic model_name attentions hidden w
         = (Inr ([(''encoder'', (Whole model, enc)), (''decoder'', (Whole model, dec))],
                 [(''encoder'', ''encoder/model.neuron''), (''decoder'', ''decoder/model.neuron'')]),
            w\<lparr>disk := d\<rparr>)"
  using assms unfolding get_submodels_and_neuron_configs_for_encoder_decoder_def
  by (simp add: step_simps Let_def encoder_decoder_names get_encoder_decoder_models_for_export_def
      py_return_def ENCODER_NAME_def DECODER_NAME_def NEURON_FILE_NAME_def os_path_join_def)

text \<open>
  C5. For a model whose configuration says it is an encoder-decoder, on a task that is not
  stable diffusion: when neuron-cc is the active compiler, decomposition raises
  \<open>RuntimeError\<close> with the state untouched, whatever the other arguments are; whenever it
  returns, the submodels are exactly the two entries \<open>encoder\<close> and \<open>decoder\<close>, and the
  artifact names map \<open>encoder\<close> to \<open>encoder/model.neuron\<close> and \<open>decoder\<close> to
  \<open>decoder/model.neuron\<close>; and it does return when the newer compiler is active and the two
  configurations and the preprocessors are built and saved without error.
\<close>

theorem encoder_decoder_two_submodels:
  assumes "\<not> py_in_str ''stable-diffusion'' (arg_task args)"
    and "py_truthy (heap w) (model_is_encoder_decoder model)"
  shows "(is_neuron_available env \<longrightarrow>
            (\<exists>msg. get_submodels_and_neuron_configs env model input_shapes library controlnets args w
                     = (Inl (RuntimeError msg), w))) \<and>
         (\<forall>ms names w'.
            get_submodels_and_neuron_configs env model input_shapes library controlnets args w
              = (Inr (ms, names), w') \<longrightarrow>
            \<not> is_neuron_available env \<and>
            names = [(''encoder'', ''encoder/model.neuron''), (''decoder'', ''decoder/model.neuron'')] \<and>
            (\<exists>enc dec. ms = [(''encoder'', (Whole model, enc)), (''decoder'', (Whole model, dec))])) \<and>
         (\<forall>enc dec d.
            \<not> is_neuron_available env \<and>
            encoder_config env model (arg_task args) (arg_dynamic_batch_size args) input_shapes (heap w)
              (arg_output_attentions args) (arg_output_hidden_states args) = Inr enc \<and>
            decoder_config env model (arg_task args) (arg_dynamic_batch_size args) input_shapes (heap w)
              (arg_output_attentions args) (arg_output_hidden_states args) = Inr dec \<and>
            maybe_save_preprocessors env (arg_model_name_or_path args) (arg_output args) [] (disk w)
              = (None, d) \<longrightarrow>
            get_submodels_and_neuron_configs env model input_shapes library controlnets args w
              = (Inr ([(''encoder'', (Whole model, enc)), (''decoder'', (Whole model, dec))],
                      [(''encoder'', ''encoder/model.neuron''), (''decoder'', ''decoder/model.neuron'')]),
                 w\<lparr>disk := d\<rparr>))"
proof -
  note helper = encoder_decoder_decomposition [of env model input_shapes "arg_task args" "arg_output args"
          "arg_dynamic_batch_size args" "arg_model_name_or_path args" "arg_output_attentions args"
          "arg_output_hidden_states args" w]
  show ?thesis
    unfolding encoder_decoder_dispatch [OF assms]
  proof (intro conjI allI impI)
    assume "is_neuron_available env"
    with helper [THEN conjunct1]
    show "\<exists>msg. get_submodels_and_neuron_configs_for_encoder_decoder env model input_shapes
                   (arg_task args) (arg_output args) (arg_dynamic_batch_size args)
                   (arg_model_name_or_path args) (arg_output_attentions args)
                   (arg_output_hidden_states args) w = (Inl (RuntimeError msg), w)"
      by (rule mp)
  next
    fix ms names w'
    assume run: "get_submodels_and_neuron_configs_for_encoder_decoder env model input_shapes
                   (arg_task args) (arg_output args) (arg_dynamic_batch_size args)
                   (arg_model_name_or_path args) (arg_output_attentions args)
                   (arg_output_hidden_states args) w = (Inr (ms, names), w')"
    note parts = helper [THEN conjunct2, rule_format, OF run]
    from parts show "\<not> is_neuron_available env" by (rule conjunct1)
    from parts show "names = [(''encoder'', ''encoder/model.neuron''), (''decoder'', ''decoder/model.neuron'')]"
      by (simp only:)
    from parts show "\<exists>enc dec. ms = [(''encoder'', (Whole model, enc)), (''decoder'', (Whole model, dec))]"
      by (rule conjunct2 [THEN conjunct2])
  next
    fix enc dec d
    assume "\<not> is_neuron_available env \<and>
            encoder_config env model (arg_task args) (arg_dynamic_batch_size args) input_shapes (heap w)
              (arg_output_attentions args) (arg_output_hidden_states args) = Inr enc \<and>
            decoder_config env model (arg_task args) (arg_dynamic_batch_size args) input_shapes (heap w)
              (arg_output_attentions args) (arg_output_hidden_states args) = Inr dec \<and>
            maybe_save_preprocessors env (arg_model_name_or_path args) (arg_output args) [] (disk w)
              = (None, d)"
    then show "get_submodels_and_neuron_configs_for_encoder_decoder env model input_shapes
                   (arg_task args) (arg_output args) (arg_dynamic_batch_size args)
                   (arg_model_name_or_path args) (arg_output_attentions args)
                   (arg_output_hidden_states args) w
              = (Inr ([(''encoder'', (Whole model, enc)), (''decoder'', (Whole model, dec))],
                      [(''encoder'', ''encoder/model.neuron''), (''decoder'', ''decoder/model.neuron'')]),
                 w\<lparr>disk := d\<rparr>)"
      by (intro encoder_decoder_returns) simp_all
  qed
qed

theorem encoder_decoder_two_submodels_witness:
  "get_submodels_and_neuron_configs (example_env False None) example_seq2seq (PRef 0)
      (PStr ''transformers'') None example_args example_world
     = (Inr ([(''encoder'', (Whole example_seq2seq, ())), (''decoder'', (Whole example_seq2seq, ()))],
             [(''encoder'', ''encoder/model.neuron''), (''decoder'', ''decoder/model.neuron'')]),
        example_world) \<and>
   (\<exists>msg. get_submodels_and_neuron_configs (example_env True None) example_seq2seq (PRef 0)
             (PStr ''transformers'') None example_args example_world
           = (Inl (RuntimeError msg), example_world))"
proof -
  have task: "\<not> py_in_str ''stable-diffusion'' (arg_task example_args)"
    by code_simp
  have seq2seq: "py_truthy (heap example_world) (model_is_encoder_decoder example_seq2seq)"
    by code_simp
  note newer = encoder_decoder_two_submodels [OF task seq2seq, of "example_env False None" "PRef 0"
      "PStr ''transformers''" None]
  note older = encoder_decoder_two_submodels [OF task seq2seq, of "example_env True None" "PRef 0"
      "PStr ''transformers''" None]
  have "get_submodels_and_neuron_configs (example_env False None) example_seq2seq (PRef 0)
      (PStr ''transformers'') None example_args example_world
     = (Inr ([(''encoder'', (Whole example_seq2seq, ())), (''decoder'', (Whole example_seq2seq, ()))],
             [(''encoder'', ''encoder/model.neuron''), (''decoder'', ''decoder/model.neuron'')]),
        example_world\<lparr>disk := ()\<rparr>)"
    by (rule newer [THEN conjunct2, THEN conjunct2, rule_format]) (simp add: example_env_def)
  moreover have "\<exists>msg. get_submodels_and_neuron_configs (example_env True None) example_seq2seq (PRef 0)
             (PStr ''transformers'') None example_args example_world
           = (Inl (RuntimeError msg), example_world)"
    by (rule older [THEN conjunct1, rule_format]) (simp add: example_env_def)
  ultimately show ?thesis by simp
qed

lemma single_graph_returns:
  assumes "\<not> py_in_str ''stable-diffusion'' (arg_task args)"
    and "\<not> py_truthy (heap w) (model_is_encoder_decoder model)"
    and "\<not> arg_output_attentions args" and "\<not> arg_output_hidden_states args"
    and "get_exporter_config_constructor env model (arg_task args) library = Inr ctor"
    and "check_mandatory_input_shapes env ctor (arg_task args) input_shapes (heap w) = Inr shapes"
    and "construct_config env ctor model (arg_dynamic_batch_size args) shapes = Inr cfg"
    and "maybe_save_preprocessors env (arg_model_name_or_path args) (arg_output args)
           (arg_subfolder args) (disk w) = (None, d)"
    and "ident = (if py_truthy (heap w) (case name_or_path model of None \<Rightarrow> PNone | Some n \<Rightarrow> n)
                  then (case name_or_path model of None \<Rightarrow> PNone | Some n \<Rightarrow> n)
                  else arg_model_name_or_path args)"
    and "py_truthy (heap w) ident \<longrightarrow> (\<exists>path. ident = PStr path)"
  shows "\<exists>key. get_submodels_and_neuron_configs env model input_shapes library controlnets args w
           = (Inr ([(key, (Whole model, cfg))], [(key, ''model.neuron'')]), w\<lparr>disk := d\<rparr>)"
  using assms unfolding get_submodels_and_neuron_configs_def Let_def
  by (auto simp: step_simps py_return_def)

text \<open>
  C6. For a model that is neither a stable-diffusion pipeline nor an encoder-decoder, with
  identifier \<open>getattr(model, "name_or_path", None) or model_name_or_path\<close>: whenever
  decomposition returns, there is exactly one submodel entry, holding the whole model, and
  exactly one artifact name, \<open>model.neuron\<close>, both under the same key; with an identifier
  the key is its last \<open>/\<close>-separated segment (the identifier ends with the key, the key has
  no \<open>/\<close>, and what precedes it is empty or ends with \<open>/\<close>), and without one the key is
  the model type of the configuration. Decomposition does return when no optional output is
  asked for, the identifier is a string or absent, and the collaborators raise nothing.
\<close>

theorem single_graph_one_submodel:
  assumes "\<not> py_in_str ''stable-diffusion'' (arg_task args)"
    and "\<not> py_truthy (heap w) (model_is_encoder_decoder model)"
    and "ident = (if py_truthy (heap w) (case name_or_path model of None \<Rightarrow> PNone | Some n \<Rightarrow> n)
                  then (case name_or_path model of None \<Rightarrow> PNone | Some n \<Rightarrow> n)
                  else arg_model_name_or_path args)"
  shows "(\<forall>ms names w'.
            get_submodels_and_neuron_configs env model input_shapes library controlnets args w
              = (Inr (ms, names), w') \<longrightarrow>
            (\<exists>key cfg. ms = [(key, (Whole model, cfg))] \<and> names = [(key, ''model.neuron'')] \<and>
               (py_truthy (heap w) ident \<longrightarrow>
                  (\<exists>path pre. ident = PStr path \<and> key = last (split_on CHR ''/'' path) \<and>
                     path = pre @ key \<and> CHR ''/'' \<notin> set key \<and> (pre = [] \<or> last pre = CHR ''/''))) \<and>
               (\<not> py_truthy (heap w) ident \<longrightarrow> key = model_type model))) \<and>
         (\<forall>ctor shapes cfg d.
            \<not> arg_output_attentions args \<and> \<not> arg_output_hidden_states args \<and>
            get_exporter_config_constructor env model (arg_task args) library = Inr ctor \<and>
            check_mandatory_input_shapes env ctor (arg_task args) input_shapes (heap w) = Inr shapes \<and>
            construct_config env ctor model (arg_dynamic_batch_size args) shapes = Inr cfg \<and>
            maybe_save_preprocessors env (arg_model_name_or_path args) (arg_output args)
              (arg_subfolder args) (disk w) = (None, d) \<and>
            (py_truthy (heap w) ident \<longrightarrow> (\<exists>path. ident = PStr path)) \<longrightarrow>
            (\<exists>key. get_submodels_and_neuron_configs env model input_shapes library controlnets args w
               = (Inr ([(key, (Whole model, cfg))], [(key, ''model.neuron'')]), w\<lparr>disk := d\<rparr>)))"
proof (intro conjI allI impI)
  fix ms names w'
  assume run: "get_submodels_and_neuron_configs env model input_shapes library controlnets args w
                 = (Inr (ms, names), w')"
  from single_graph [OF assms(1) assms(2) run assms(3)]
  obtain key cfg where entry: "ms = [(key, (Whole model, cfg))]" "names = [(key, ''model.neuron'')]"
    and key: "if py_truthy (heap w) ident
              then (\<exists>path. ident = PStr path \<and> key = last (split_on CHR ''/'' path))
              else key = model_type model"
    by blast
  have "py_truthy (heap w) ident \<longrightarrow>
          (\<exists>path pre. ident = PStr path \<and> key = last (split_on CHR ''/'' path) \<and>
             path = pre @ key \<and> CHR ''/'' \<notin> set key \<and> (pre = [] \<or> last pre = CHR ''/''))"
  proof
    assume "py_truthy (heap w) ident"
    with key obtain path where path: "ident = PStr path" "key = last (split_on CHR ''/'' path)"
      by auto
    from last_split_on [of path "CHR ''/''"] path
    show "\<exists>path pre. ident = PStr path \<and> key = last (split_on CHR ''/'' path) \<and>
             path = pre @ key \<and> CHR ''/'' \<notin> set key \<and> (pre = [] \<or> last pre = CHR ''/'')"
      by blast
  qed
  moreover from key have "\<not> py_truthy (heap w) ident \<longrightarrow> key = model_type model"
    by simp
  ultimately
  show "\<exists>key cfg. ms = [(key, (Whole model, cfg))] \<and> names = [(key, ''model.neuron'')] \<and>
               (py_truthy (heap w) ident \<longrightarrow>
                  (\<exists>path pre. ident = PStr path \<and> key = last (split_on CHR ''/'' path) \<and>
                     path = pre @ key \<and> CHR ''/'' \<notin> set key \<and> (pre = [] \<or> last pre = CHR ''/''))) \<and>
               (\<not> py_truthy (heap w) ident \<longrightarrow> key = model_type model)"
    using entry by blast
next
  fix ctor shapes cfg d
  assume ok: "\<not> arg_output_attentions args \<and> \<not> arg_output_hidden_states args \<and>
            get_exporter_config_constructor env model (arg_task args) library = Inr ctor \<and>
            check_mandatory_input_shapes env ctor (arg_task args) input_shapes (heap w) = Inr shapes \<and>
            construct_config env ctor model (arg_dynamic_batch_size args) shapes = Inr cfg \<and>
            maybe_save_preprocessors env (arg_model_name_or_path args) (arg_output args)
              (arg_subfolder args) (disk w) = (None, d) \<and>
            (py_truthy (heap w) ident \<longrightarrow> (\<exists>path. ident = PStr path))"
  show "\<exists>key. get_submodels_and_neuron_configs env model input_shapes library controlnets args w
               = (Inr ([(key, (Whole model, cfg))], [(key, ''model.neuron'')]), w\<lparr>disk := d\<rparr>)"
  proof (rule single_graph_returns [OF assms(1) assms(2) _ _ _ _ _ _ assms(3)])
    from ok show "\<not> arg_output_attentions args" by simp
    from ok show "\<not> arg_output_hidden_states args" by simp
    from ok show "get_exporter_config_constructor env model (arg_task args) library = Inr ctor"
      by simp
    from ok show "check_mandatory_input_shapes env ctor (arg_task args) input_shapes (heap w) = Inr shapes"
      by simp
    from ok show "construct_config env ctor model (arg_dynamic_batch_size args) shapes = Inr cfg"
      by simp
    from ok show "maybe_save_preprocessors env (arg_model_name_or_path args) (arg_output args)
                    (arg_subfolder args) (disk w) = (None, d)"
      by simp
    from ok show "py_truthy (heap w) ident \<longrightarrow> (\<exists>path. ident = PStr path)"
      by simp
  qed
qed

theorem single_graph_one_submodel_witness:
  "get_submodels_and_neuron_configs (example_env False None) example_encoder (PRef 0)
      (PStr ''transformers'') None example_args example_world
     = (Inr ([(''bert-base-uncased'', (Whole example_encoder, ()))],
             [(''bert-base-uncased'', ''model.neuron'')]),
        example_world)"
proof -
  have task: "\<not> py_in_str ''stable-diffusion'' (arg_task example_args)"
    by code_simp
  have encoder: "\<not> py_truthy (heap example_world) (model_is_encoder_decoder example_encoder)"
    by code_simp
  have ident: "PStr ''google-bert/bert-base-uncased''
                 = (if py_truthy (heap example_world)
                         (case name_or_path example_encoder of None \<Rightarrow> PNone | Some n \<Rightarrow> n)
                    then (case name_or_path example_encoder of None \<Rightarrow> PNone | Some n \<Rightarrow> n)
                    else arg_model_name_or_path example_args)"
    by (simp add: example_encoder_def)
  note one = single_graph_one_submodel [OF task encoder ident, of "example_env False None" "PRef 0"
      "PStr ''transformers''" None]
  have "\<exists>key. get_submodels_and_neuron_configs (example_env False None) example_encoder (PRef 0)
                 (PStr ''transformers'') None example_args example_world
               = (Inr ([(key, (Whole example_encoder, ()))], [(key, ''model.neuron'')]),
                  example_world\<lparr>disk := ()\<rparr>)"
    by (rule one [THEN conjunct2, rule_format])
       (simp add: example_env_def example_args_def)
  then obtain key where run:
    "get_submodels_and_neuron_configs (example_env False None) example_encoder (PRef 0)
        (PStr ''transformers'') None example_args example_world
      = (Inr ([(key, (Whole example_encoder, ()))], [(key, ''model.neuron'')]),
         example_world\<lparr>disk := ()\<rparr>)"
    by blast
  from one [THEN conjunct1, rule_format, OF run]
  have "key = last (split_on CHR ''/'' ''google-bert/bert-base-uncased'')"
    by auto
  also have "\<dots> = ''bert-base-uncased''"
    by code_simp
  finally show ?thesis
    using run by simp
qed

end
